theory Spec2Isabelle
  imports Complex_Main "HOL-Library.Sublist"
begin

text \<open>
  DC2_Repo is a collection of Jupyter notebooks on the DC2 simulated-sky catalogs. This
  theory embeds the code that the notebooks themselves contain: the cells of the
  coadd-catalog notebook that read the catalog, plot it and select rows by signal to
  noise; the group-counting and cross-reference cells and the position offsets of the
  truth/coadd matching notebook; the disc centre and the row filters of the
  truth-catalog notebook; and the class \<open>RegionSelector\<close> with the catalog builders of
  the Stack matching notebook. It then proves what the specification says about them.
  External libraries appear by the behaviour that their documentation gives them, or as
  parameters.
\<close>

section \<open>Values and arrays\<close>

text \<open>
  The notebooks compute on numpy arrays and pandas columns of double-precision floats.
  On catalog columns the repository's own code applies the comparisons \<open><\<close> and
  \<open>>\<close>, Python's \<open>min\<close> and \<open>max\<close>, and the two constant divisions \<open>1/25\<close> and
  \<open>1/100\<close> (\<open>fl_le\<close> states the order of the results of \<open>min\<close> and \<open>max\<close>). A
  float is modelled as a rational number or NaN; every comparison with NaN is false, as in
  IEEE 754. Where a cell subtracts two columns to plot them, the subtraction is a
  parameter of the model.
\<close>

datatype pyfloat = NaN | Fin rat

text \<open>The Python exceptions that the modelled cells can raise.\<close>

datatype py_error =
  ValueError | AttributeError | AssertionError | IndexError | FileNotFoundError | KeyError

fun fl_lt :: "pyfloat \<Rightarrow> pyfloat \<Rightarrow> bool" where
  "fl_lt (Fin a) (Fin b) = (a < b)"
| "fl_lt _ _ = False"

definition fl_gt :: "pyfloat \<Rightarrow> pyfloat \<Rightarrow> bool" where
  "fl_gt a b = fl_lt b a"

fun fl_le :: "pyfloat \<Rightarrow> pyfloat \<Rightarrow> bool" where
  "fl_le (Fin a) (Fin b) = (a \<le> b)"
| "fl_le _ _ = False"

text \<open>
  \<open>arr < c\<close>, \<open>m1 & m2\<close> and \<open>arr[mask]\<close> of numpy and pandas: the comparison of a
  column with a scalar is elementwise, \<open>&\<close> on two boolean arrays is elementwise, and
  indexing with a boolean mask keeps the rows whose mask entry is true, in order.
\<close>

definition lt_scalar :: "pyfloat list \<Rightarrow> pyfloat \<Rightarrow> bool list" where
  "lt_scalar xs c = map (\<lambda>x. fl_lt x c) xs"

definition gt_scalar :: "pyfloat list \<Rightarrow> pyfloat \<Rightarrow> bool list" where
  "gt_scalar xs c = map (\<lambda>x. fl_gt x c) xs"

definition mask_and :: "bool list \<Rightarrow> bool list \<Rightarrow> bool list" where
  "mask_and m1 m2 = map (\<lambda>(a, b). a \<and> b) (zip m1 m2)"

definition take_mask :: "bool list \<Rightarrow> 'a list \<Rightarrow> 'a list" where
  "take_mask m xs = map snd (filter fst (zip m xs))"

section \<open>The coadd-catalog notebook: signal-to-noise selections\<close>

text \<open>
  A row of the merged coadd dataframe \<open>df\<close>, with the columns the notebook reads.
\<close>

record coadd_row =
  g_mag :: pyfloat
  r_mag :: pyfloat
  i_mag :: pyfloat
  g_mag_err :: pyfloat
  r_mag_err :: pyfloat
  base_ClassificationExtendedness_value :: pyfloat

text \<open>
  The two selection cells, run in notebook order. Both assign the same variable
  \<open>mag_err_threshold\<close>; the second cell overwrites the value of the first after
  \<open>good_snr\<close> has been computed. The kernel is Python 3, so \<open>1/25\<close> is the true
  division; the model keeps the exact quotient.
  \<^verbatim>\<open>
  snr_threshold = 25
  mag_err_threshold = 1/snr_threshold
  good_snr = df[(df['g_mag_err'] < mag_err_threshold) & (df['r_mag_err'] < mag_err_threshold)]

  bright_snr_threshold = 100
  mag_err_threshold = 1/bright_snr_threshold
  bright_stars = df[(df['g_mag_err'] < mag_err_threshold) & (df['r_mag_err'] < mag_err_threshold)]
  \<close>
\<close>

record snr_state =
  df :: "coadd_row list"
  snr_threshold :: rat
  bright_snr_threshold :: rat
  mag_err_threshold :: pyfloat
  good_snr :: "coadd_row list"
  bright_stars :: "coadd_row list"

definition err_mask :: "coadd_row list \<Rightarrow> pyfloat \<Rightarrow> bool list" where
  "err_mask d thr = mask_and (lt_scalar (map g_mag_err d) thr) (lt_scalar (map r_mag_err d) thr)"

definition good_snr_cell :: "snr_state \<Rightarrow> snr_state" where
  "good_snr_cell s =
     (let s1 = s\<lparr>snr_threshold := 25\<rparr>;
          s2 = s1\<lparr>mag_err_threshold := Fin (1 / snr_threshold s1)\<rparr>
      in s2\<lparr>good_snr := take_mask (err_mask (df s2) (mag_err_threshold s2)) (df s2)\<rparr>)"

definition bright_stars_cell :: "snr_state \<Rightarrow> snr_state" where
  "bright_stars_cell s =
     (let s1 = s\<lparr>bright_snr_threshold := 100\<rparr>;
          s2 = s1\<lparr>mag_err_threshold := Fin (1 / bright_snr_threshold s1)\<rparr>
      in s2\<lparr>bright_stars := take_mask (err_mask (df s2) (mag_err_threshold s2)) (df s2)\<rparr>)"

definition snr_cells :: "coadd_row list \<Rightarrow> snr_state" where
  "snr_cells d =
     bright_stars_cell (good_snr_cell
       \<lparr>df = d, snr_threshold = 0, bright_snr_threshold = 0, mag_err_threshold = NaN,
        good_snr = [], bright_stars = []\<rparr>)"

text \<open>
  Three rows to run the cells on: a bright star, a fainter object and a row whose
  \<open>g\<close> error is NaN.
\<close>

definition df_example :: "coadd_row list" where
  "df_example =
     [\<lparr>g_mag = Fin 20, r_mag = Fin 19, i_mag = Fin 19, g_mag_err = Fin (1/200),
       r_mag_err = Fin (1/500), base_ClassificationExtendedness_value = Fin 0\<rparr>,
      \<lparr>g_mag = Fin 23, r_mag = Fin 22, i_mag = Fin 22, g_mag_err = Fin (1/50),
       r_mag_err = Fin (1/40), base_ClassificationExtendedness_value = Fin 1\<rparr>,
      \<lparr>g_mag = Fin 26, r_mag = Fin 25, i_mag = NaN, g_mag_err = NaN,
       r_mag_err = Fin (1/2), base_ClassificationExtendedness_value = NaN\<rparr>]"

section \<open>The truth/coadd matching notebook: counting group members\<close>

text \<open>
  numpy as the group-counting cell uses it, on arrays of non-negative integers:
  \<^item> \<open>a.max()\<close> raises ValueError on an empty array;
  \<^item> \<open>np.bincount(x, minlength=m)\<close> has one bin for each value from 0 to the largest
    value of \<open>x\<close>, and at least \<open>m\<close> bins; bin \<open>k\<close> holds the number of occurrences
    of \<open>k\<close> in \<open>x\<close>;
  \<^item> \<open>a * n + b\<close> is elementwise on two arrays of one length;
  \<^item> \<open>a.reshape(r, c)\<close> raises ValueError unless \<open>a\<close> has \<open>r * c\<close> elements, and
    cuts \<open>a\<close> into \<open>r\<close> rows of \<open>c\<close> elements.
  The arrays are 64-bit; the counts of a catalog are far below that range and are
  modelled as natural numbers.
\<close>

fun amax :: "nat list \<Rightarrow> py_error + nat" where
  "amax [] = Inl ValueError"
| "amax (x # xs) = Inr (fold max xs x)"

definition bincount :: "nat list \<Rightarrow> nat \<Rightarrow> nat list" where
  "bincount xs minlength =
     map (count_list xs) [0 ..< max minlength (case xs of [] \<Rightarrow> 0 | y # ys \<Rightarrow> fold max ys y + 1)]"

definition encode_pairs :: "nat list \<Rightarrow> nat \<Rightarrow> nat list \<Rightarrow> nat list" where
  "encode_pairs a n b = map (\<lambda>(x, y). x * n + y) (zip a b)"

definition reshape :: "nat \<Rightarrow> nat \<Rightarrow> 'a list \<Rightarrow> py_error + 'a list list" where
  "reshape r c xs =
     (if length xs \<noteq> r * c then Inl ValueError
      else Inr (map (\<lambda>i. take c (drop (i * c) xs)) [0 ..< r]))"

text \<open>
  A row of the table that \<open>FoFCatalogMatching.match\<close> returns: the row's index in its
  own catalog, the key of that catalog and the id of the group the row was put in.
\<close>

record fof_row =
  row_index :: nat
  catalog_key :: string
  group_id :: nat

text \<open>
  The cell, with every variable it assigns kept in the result (\<open>codes\<close> is the
  argument of the last \<open>bincount\<close>).
  \<^verbatim>\<open>
  truth_mask = results['catalog_key'] == 'truth'
  coadd_mask = ~truth_mask
  n_groups = results['group_id'].max() + 1
  n_truth = np.bincount(results['group_id'][truth_mask], minlength=n_groups)
  n_coadd = np.bincount(results['group_id'][coadd_mask], minlength=n_groups)
  n_max = max(n_truth.max(), n_coadd.max()) + 1
  hist_2d = np.bincount(n_coadd * n_max + n_truth, minlength=n_max*n_max).reshape(n_max, n_max)
  \<close>
\<close>

record hist_vars =
  truth_mask :: "bool list"
  coadd_mask :: "bool list"
  n_groups :: nat
  n_truth :: "nat list"
  n_coadd :: "nat list"
  n_max :: nat
  codes :: "nat list"
  hist_2d :: "nat list list"

definition hist_cell :: "fof_row list \<Rightarrow> py_error + hist_vars" where
  "hist_cell results =
     (let tm = map (\<lambda>r. catalog_key r = ''truth'') results;
          cm = map Not tm
      in case amax (map group_id results) of
           Inl e \<Rightarrow> Inl e
         | Inr gmax \<Rightarrow>
        (let ng = gmax + 1;
             nt = bincount (take_mask tm (map group_id results)) ng;
             nc = bincount (take_mask cm (map group_id results)) ng
         in case amax nt of
              Inl e \<Rightarrow> Inl e
            | Inr tmax \<Rightarrow>
           (case amax nc of
              Inl e \<Rightarrow> Inl e
            | Inr cmax \<Rightarrow>
              (let nm = max tmax cmax + 1;
                   cs = encode_pairs nc nm nt
               in case reshape nm nm (bincount cs (nm * nm)) of
                    Inl e \<Rightarrow> Inl e
                  | Inr h \<Rightarrow>
                      Inr \<lparr>truth_mask = tm, coadd_mask = cm, n_groups = ng, n_truth = nt,
                           n_coadd = nc, n_max = nm, codes = cs, hist_2d = h\<rparr>))))"

text \<open>
  The number of rows of one group that come from the truth catalog, and from the coadd
  catalog (every row that is not a truth row), counted directly on the table.
\<close>

definition truth_members :: "fof_row list \<Rightarrow> nat \<Rightarrow> nat" where
  "truth_members results g =
     length (filter (\<lambda>r. group_id r = g \<and> catalog_key r = ''truth'') results)"

definition coadd_members :: "fof_row list \<Rightarrow> nat \<Rightarrow> nat" where
  "coadd_members results g =
     length (filter (\<lambda>r. group_id r = g \<and> catalog_key r \<noteq> ''truth'') results)"

text \<open>
  A table of four groups: two with one truth and one coadd member each, an empty one and
  one with two truth members.
\<close>

definition results_example :: "fof_row list" where
  "results_example =
     [\<lparr>row_index = 0, catalog_key = ''truth'', group_id = 0\<rparr>,
      \<lparr>row_index = 0, catalog_key = ''coadd'', group_id = 0\<rparr>,
      \<lparr>row_index = 1, catalog_key = ''truth'', group_id = 1\<rparr>,
      \<lparr>row_index = 1, catalog_key = ''coadd'', group_id = 1\<rparr>,
      \<lparr>row_index = 2, catalog_key = ''truth'', group_id = 3\<rparr>,
      \<lparr>row_index = 3, catalog_key = ''truth'', group_id = 3\<rparr>]"

text \<open>The variables of the cell after it has run on the example.\<close>

definition hist_example :: hist_vars where
  "hist_example =
     \<lparr>truth_mask = [True, False, True, False, True, True],
      coadd_mask = [False, True, False, True, False, False], n_groups = 4,
      n_truth = [1, 1, 0, 2], n_coadd = [1, 1, 0, 0], n_max = 3,
      codes = [4, 4, 0, 2], hist_2d = [[1, 0, 1], [0, 2, 0], [0, 0, 0]]\<rparr>"

section \<open>The truth-catalog notebook: row filters\<close>

text \<open>
  A numpy array carries the type of its elements. \<open>np.array\<close> of a Python list of
  \<open>bool\<close> values has dtype \<open>bool\<close>; \<open>np.array([])\<close>, of the empty list, has numpy's
  default dtype \<open>float64\<close>. The result of comparing an array with a scalar has dtype
  \<open>bool\<close> whatever its length.
\<close>

datatype dtype = Bool_dtype | Float64_dtype

record mask_array =
  dtype :: dtype
  items :: "bool list"

definition np_array :: "bool list \<Rightarrow> mask_array" where
  "np_array bs = \<lparr>dtype = (if bs = [] then Float64_dtype else Bool_dtype), items = bs\<rparr>"

definition np_less :: "pyfloat list \<Rightarrow> pyfloat \<Rightarrow> mask_array" where
  "np_less xs c = \<lparr>dtype = Bool_dtype, items = lt_scalar xs c\<rparr>"

text \<open>
  The filters close over the globals of their cell. \<open>list_of_healpix\<close> is the array that
  \<open>healpy.query_disc\<close> returned and \<open>angularSeparation\<close> is a function of
  \<open>lsst.sims.utils\<close> (degrees in, degrees out, elementwise on its two array arguments);
  the model takes both as parameters. \<open>hh in list_of_healpix\<close> on a numpy array is
  \<open>(list_of_healpix == hh).any()\<close>.
  \<^verbatim>\<open>
  center_ra = 54.6
  center_dec = -28.0
  radius = 0.2

  def filter_on_healpix(hp):
      return np.array([hh in list_of_healpix for hh in hp])

  def filter_on_dist(ra, dec):
      return angularSeparation(ra, dec, center_ra, center_dec)<radius
  \<close>
\<close>

definition center_ra :: pyfloat where
  "center_ra = Fin (546 / 10)"

definition center_dec :: pyfloat where
  "center_dec = Fin (- 28)"

definition radius :: pyfloat where
  "radius = Fin (2 / 10)"

definition filter_on_healpix :: "int list \<Rightarrow> int list \<Rightarrow> mask_array" where
  "filter_on_healpix list_of_healpix hp = np_array (map (\<lambda>hh. hh \<in> set list_of_healpix) hp)"

definition filter_on_dist ::
  "(pyfloat \<Rightarrow> pyfloat \<Rightarrow> pyfloat \<Rightarrow> pyfloat \<Rightarrow> pyfloat) \<Rightarrow> pyfloat list \<Rightarrow> pyfloat list \<Rightarrow> mask_array"
where
  "filter_on_dist angularSeparation ra dec =
     np_less (map (\<lambda>(r, d). angularSeparation r d center_ra center_dec) (zip ra dec)) radius"

section \<open>The Stack matching notebook: source catalogs and region selectors\<close>

subsection \<open>Source catalogs\<close>

text \<open>
  An \<open>lsst.afw.table\<close> schema is a list of fields; a \<open>SourceCatalog\<close> is a schema and
  a list of records, each record holding a value for the fields that were set. The
  fields of \<open>SourceTable.makeMinimalSchema()\<close> are a parameter \<open>minimal\<close> of the model.
  \<open>schema.addField\<close> appends a field and \<open>catalog.addNew()\<close> appends a fresh record.
  \<open>Angle(x, degrees)\<close> is kept as the number of degrees it was built from.
  \<^verbatim>\<open>
  def make_SourceCatalog(new_cols):
      schema = afw_table.SourceTable.makeMinimalSchema()
      for coldef in new_cols:
          schema.addField(coldef.name, type=coldef.type, doc=coldef.doc)
      return afw_table.SourceCatalog(schema)

  def mag_cols(bands):
      Coldef = namedtuple('Coldef', 'name type doc'.split())
      return [Coldef('mag_{}'.format(x), float, '{}-magnitude'.format(x))
              for x in bands]
  \<close>
\<close>

datatype field_type = Float_type | Int64_type | Angle_type

record Coldef =
  name :: string
  type :: field_type
  doc :: string

datatype field_value = Id_value int | Angle_degrees pyfloat | Float_value pyfloat

type_synonym source_record = "string \<rightharpoonup> field_value"

record SourceCatalog =
  schema :: "Coldef list"
  records :: "source_record list"

definition addField :: "Coldef \<Rightarrow> Coldef list \<Rightarrow> Coldef list" where
  "addField coldef sch = sch @ [coldef]"

definition make_SourceCatalog :: "Coldef list \<Rightarrow> Coldef list \<Rightarrow> SourceCatalog" where
  "make_SourceCatalog minimal new_cols = \<lparr>schema = fold addField new_cols minimal, records = []\<rparr>"

definition mag_cols :: "string list \<Rightarrow> Coldef list" where
  "mag_cols bands =
     map (\<lambda>x. \<lparr>name = ''mag_'' @ x, type = Float_type, doc = x @ ''-magnitude''\<rparr>) bands"

subsection \<open>The galaxy catalog\<close>

text \<open>
  The extragalactic catalog as \<open>RegionSelector.__call__\<close> reads it through the generic
  catalog reader: a table of galaxies with an id, a position and the value of each further
  quantity that the catalog has, by the name of the quantity (such as
  \<open>mag_true_r_lsst\<close>). \<open>gc.get_quantities(['galaxy_id', 'ra_true', 'dec_true', q],
  filters=[f])\<close> raises when \<open>q\<close> or a name in a filter is not a quantity of the
  catalog, and otherwise returns the four columns of the rows that pass every filter.
  The filter is the string \<open>'<quantity> < <value>'\<close>; it is modelled by the quantity
  and the value it was formatted from. A NaN is formatted as \<open>nan\<close>, which the reader
  takes for the name of a quantity that the catalog does not have. The reader parses the
  string as an expression: the model describes it for the bands whose formatted name is
  one identifier (as \<open>mag_true_r_lsst\<close> is) and for finite limits; for another name,
  or an infinite limit, the reader raises and \<open>__call__\<close> returns no catalog.
  (\<open>galaxy_id\<close> is
  declared on its own so that the rows which the truth/coadd matching notebook reads from
  the same catalog share the field.)
\<close>

record galaxy_key =
  galaxy_id :: int

record galaxy = galaxy_key +
  ra_true :: pyfloat
  dec_true :: pyfloat
  quantity :: "string \<Rightarrow> pyfloat"

record GalaxyCatalog =
  quantities :: "string list"
  galaxies :: "galaxy list"

datatype gcr_filter = Less_than string pyfloat

record gc_columns =
  col_galaxy_id :: "int list"
  col_ra_true :: "pyfloat list"
  col_dec_true :: "pyfloat list"
  col_band :: "pyfloat list"

definition passes :: "gcr_filter \<Rightarrow> galaxy \<Rightarrow> bool" where
  "passes f g = (case f of Less_than q v \<Rightarrow> fl_lt (quantity g q) v)"

definition known_filter :: "GalaxyCatalog \<Rightarrow> gcr_filter \<Rightarrow> bool" where
  "known_filter gc f = (case f of Less_than q v \<Rightarrow> q \<in> set (quantities gc) \<and> v \<noteq> NaN)"

definition get_quantities :: "GalaxyCatalog \<Rightarrow> string \<Rightarrow> gcr_filter list \<Rightarrow> py_error + gc_columns" where
  "get_quantities gc q filters =
     (if q \<notin> set (quantities gc) \<or> \<not> list_all (known_filter gc) filters then Inl ValueError
      else let rows = filter (\<lambda>g. list_all (\<lambda>f. passes f g) filters) (galaxies gc)
           in Inr \<lparr>col_galaxy_id = map galaxy_id rows, col_ra_true = map ra_true rows,
                   col_dec_true = map dec_true rows,
                   col_band = map (\<lambda>g. quantity g q) rows\<rparr>)"

subsection \<open>RegionSelector\<close>

text \<open>
  Python's \<open>min\<close> and \<open>max\<close> of a list: ValueError on the empty list; otherwise the
  first element is the candidate and a later element replaces it when it compares
  \<open><\<close> (for \<open>min\<close>) or \<open>>\<close> (for \<open>max\<close>) with the candidate.
\<close>

fun py_min :: "pyfloat list \<Rightarrow> py_error + pyfloat" where
  "py_min [] = Inl ValueError"
| "py_min (x # xs) = Inr (fold (\<lambda>item cur. if fl_lt item cur then item else cur) xs x)"

fun py_max :: "pyfloat list \<Rightarrow> py_error + pyfloat" where
  "py_max [] = Inl ValueError"
| "py_max (x # xs) = Inr (fold (\<lambda>item cur. if fl_gt item cur then item else cur) xs x)"

text \<open>
  The state of a selector is its two attributes; \<open>__init__\<close> of the base class sets
  neither, and reading an attribute that was never set raises AttributeError.
  In \<open>_set_coord_range\<close>, \<open>corners\<close> stands for \<open>afw_geom.Box2D(bbox).getCorners()\<close>
  and \<open>pixelToSky\<close> for \<open>wcs.pixelToSky\<close> followed by \<open>asDegrees()\<close> on both angles.
  \<^verbatim>\<open>
  class RegionSelector:
      field_rotator = FieldRotator(0, 0, protoDC2_ra, protoDC2_dec)

      def __init__(self):
          pass

      def _set_coord_range(self, bbox, wcs):
          region_box = afw_geom.Box2D(bbox)
          corners = region_box.getCorners()
          ra_values, dec_values = [], []
          for corner in corners:
              ra, dec = wcs.pixelToSky(corner)
              ra_values.append(ra.asDegrees())
              dec_values.append(dec.asDegrees())
          self.ra_range = min(ra_values), max(ra_values)
          self.dec_range = min(dec_values), max(dec_values)
  \<close>
\<close>

record RegionSelector =
  ra_range :: "(pyfloat \<times> pyfloat) option"
  dec_range :: "(pyfloat \<times> pyfloat) option"

definition RegionSelector_init :: RegionSelector where
  "RegionSelector_init = \<lparr>ra_range = None, dec_range = None\<rparr>"

definition set_coord_range ::
  "('p \<Rightarrow> pyfloat \<times> pyfloat) \<Rightarrow> 'p list \<Rightarrow> RegionSelector \<Rightarrow> py_error + RegionSelector"
where
  "set_coord_range pixelToSky corners self =
     (let ra_values = map (\<lambda>corner. fst (pixelToSky corner)) corners;
          dec_values = map (\<lambda>corner. snd (pixelToSky corner)) corners
      in case py_min ra_values of Inl e \<Rightarrow> Inl e | Inr ra_lo \<Rightarrow>
         case py_max ra_values of Inl e \<Rightarrow> Inl e | Inr ra_hi \<Rightarrow>
         case py_min dec_values of Inl e \<Rightarrow> Inl e | Inr dec_lo \<Rightarrow>
         case py_max dec_values of Inl e \<Rightarrow> Inl e | Inr dec_hi \<Rightarrow>
           Inr (self\<lparr>ra_range := Some (ra_lo, ra_hi), dec_range := Some (dec_lo, dec_hi)\<rparr>))"

text \<open>
  \<open>np.where(mask)\<close> is the array of the positions at which \<open>mask\<close> is true, and
  \<open>arr[index]\<close> reads \<open>arr\<close> at each of them, raising IndexError for a position
  outside \<open>arr\<close>.
\<close>

definition np_where :: "bool list \<Rightarrow> nat list" where
  "np_where m = filter (\<lambda>i. m ! i) [0 ..< length m]"

definition take_index :: "nat list \<Rightarrow> 'a list \<Rightarrow> py_error + 'a list" where
  "take_index index xs =
     (if \<forall>i\<in>set index. i < length xs then Inr (map (\<lambda>i. xs ! i) index) else Inl IndexError)"

text \<open>
  \<open>__call__\<close>. \<open>transform\<close> stands for \<open>self.field_rotator.transform\<close>, the method of
  the repository's module \<open>Matching.fieldRotator\<close>, which rotates each position
  (degrees in, degrees out).
  \<^verbatim>\<open>
      def __call__(self, gc, band, max_mag):
          bandname = 'mag_true_{}_lsst'.format(band)
          filter_ = '{} < {}'.format(bandname, max_mag)
          gc_cols = gc.get_quantities(['galaxy_id', 'ra_true', 'dec_true',
                                       bandname], filters=[filter_])
          gc_ra_rot, gc_dec_rot \
              = self.field_rotator.transform(gc_cols['ra_true'],
                                             gc_cols['dec_true'])
          index = np.where((gc_ra_rot > self.ra_range[0]) &
                           (gc_ra_rot < self.ra_range[1]) &
                           (gc_dec_rot > self.dec_range[0]) &
                           (gc_dec_rot < self.dec_range[1]))
          galaxy_id = gc_cols['galaxy_id'][index]
          gc_ra = gc_ra_rot[index]
          gc_dec = gc_dec_rot[index]
          gc_mag = gc_cols[bandname][index]
          galaxy_catalog = make_SourceCatalog(mag_cols((band,)))
          for id_, ra, dec, mag in zip(galaxy_id, gc_ra, gc_dec, gc_mag):
              record = galaxy_catalog.addNew()
              record.set('id', id_)
              record.set('coord_ra', afw_geom.Angle(ra, afw_geom.degrees))
              record.set('coord_dec', afw_geom.Angle(dec, afw_geom.degrees))
              record.set('mag_{}'.format(band), mag)
          return galaxy_catalog
  \<close>
\<close>

definition format_bandname :: "string \<Rightarrow> string" where
  "format_bandname band = ''mag_true_'' @ band @ ''_lsst''"

definition new_record :: "string \<Rightarrow> int \<times> pyfloat \<times> pyfloat \<times> pyfloat \<Rightarrow> source_record" where
  "new_record band row = (case row of (id', ra, dec, mag) \<Rightarrow>
     Map.empty(''id'' \<mapsto> Id_value id', ''coord_ra'' \<mapsto> Angle_degrees ra,
               ''coord_dec'' \<mapsto> Angle_degrees dec, ''mag_'' @ band \<mapsto> Float_value mag))"

definition add_records ::
  "string \<Rightarrow> (int \<times> pyfloat \<times> pyfloat \<times> pyfloat) list \<Rightarrow> SourceCatalog \<Rightarrow> SourceCatalog"
where
  "add_records band rows cat =
     fold (\<lambda>row c. c\<lparr>records := records c @ [new_record band row]\<rparr>) rows cat"

definition region_mask :: "RegionSelector \<Rightarrow> pyfloat list \<Rightarrow> pyfloat list \<Rightarrow> py_error + bool list" where
  "region_mask self gc_ra_rot gc_dec_rot =
     (case ra_range self of None \<Rightarrow> Inl AttributeError | Some ra_r \<Rightarrow>
      case dec_range self of None \<Rightarrow> Inl AttributeError | Some dec_r \<Rightarrow>
        Inr (mask_and (mask_and (mask_and (gt_scalar gc_ra_rot (fst ra_r))
                                          (lt_scalar gc_ra_rot (snd ra_r)))
                                (gt_scalar gc_dec_rot (fst dec_r)))
                      (lt_scalar gc_dec_rot (snd dec_r))))"

definition RegionSelector_call ::
  "(pyfloat \<Rightarrow> pyfloat \<Rightarrow> pyfloat \<times> pyfloat) \<Rightarrow> Coldef list \<Rightarrow> RegionSelector
     \<Rightarrow> GalaxyCatalog \<Rightarrow> string \<Rightarrow> pyfloat \<Rightarrow> py_error + SourceCatalog"
where
  "RegionSelector_call transform minimal self gc band max_mag =
     (let bandname = format_bandname band;
          filter' = Less_than bandname max_mag
      in case get_quantities gc bandname [filter'] of Inl e \<Rightarrow> Inl e | Inr gc_cols \<Rightarrow>
         (let rot = map (\<lambda>(ra, dec). transform ra dec)
                        (zip (col_ra_true gc_cols) (col_dec_true gc_cols));
              gc_ra_rot = map fst rot;
              gc_dec_rot = map snd rot
          in case region_mask self gc_ra_rot gc_dec_rot of Inl e \<Rightarrow> Inl e | Inr m \<Rightarrow>
             (let index = np_where m
              in case take_index index (col_galaxy_id gc_cols) of Inl e \<Rightarrow> Inl e | Inr galaxy_id' \<Rightarrow>
                 case take_index index gc_ra_rot of Inl e \<Rightarrow> Inl e | Inr gc_ra \<Rightarrow>
                 case take_index index gc_dec_rot of Inl e \<Rightarrow> Inl e | Inr gc_dec \<Rightarrow>
                 case take_index index (col_band gc_cols) of Inl e \<Rightarrow> Inl e | Inr gc_mag \<Rightarrow>
                   Inr (add_records band (zip galaxy_id' (zip gc_ra (zip gc_dec gc_mag)))
                          (make_SourceCatalog minimal (mag_cols [band]))))))"

text \<open>The region test of \<open>__call__\<close> on one rotated position.\<close>

definition in_region :: "pyfloat \<times> pyfloat \<Rightarrow> pyfloat \<times> pyfloat \<Rightarrow> pyfloat \<times> pyfloat \<Rightarrow> bool" where
  "in_region ra_r dec_r p =
     (fl_lt (fst ra_r) (fst p) \<and> fl_lt (fst p) (snd ra_r)
      \<and> fl_lt (fst dec_r) (snd p) \<and> fl_lt (snd p) (snd dec_r))"

text \<open>A small catalog, a selector and a minimal schema to run the definitions on.\<close>

definition galaxy_catalog_example :: GalaxyCatalog where
  "galaxy_catalog_example = \<lparr>quantities = [''mag_true_r_lsst'', ''mag_true_i_lsst''], galaxies =
     [\<lparr>galaxy_id = 10, ra_true = Fin 1, dec_true = Fin 1,
       quantity = (\<lambda>q. if q = ''mag_true_r_lsst'' then Fin 20 else Fin 21)\<rparr>,
      \<lparr>galaxy_id = 11, ra_true = Fin 2, dec_true = Fin 1,
       quantity = (\<lambda>q. if q = ''mag_true_r_lsst'' then Fin 25 else Fin 21)\<rparr>,
      \<lparr>galaxy_id = 12, ra_true = Fin 5, dec_true = Fin 1,
       quantity = (\<lambda>q. if q = ''mag_true_r_lsst'' then Fin 20 else Fin 21)\<rparr>,
      \<lparr>galaxy_id = 13, ra_true = Fin 2, dec_true = Fin 2,
       quantity = (\<lambda>q. if q = ''mag_true_r_lsst'' then Fin 24 else NaN)\<rparr>]\<rparr>"

definition selector_example :: RegionSelector where
  "selector_example = \<lparr>ra_range = Some (Fin 0, Fin 3), dec_range = Some (Fin 0, Fin 3)\<rparr>"

definition minimal_example :: "Coldef list" where
  "minimal_example =
     [\<lparr>name = ''id'', type = Int64_type, doc = ''unique ID''\<rparr>,
      \<lparr>name = ''coord_ra'', type = Angle_type, doc = ''position in ra/dec''\<rparr>,
      \<lparr>name = ''coord_dec'', type = Angle_type, doc = ''position in ra/dec''\<rparr>,
      \<lparr>name = ''parent'', type = Int64_type, doc = ''unique ID of parent source''\<rparr>]"

definition swap_example :: "pyfloat \<Rightarrow> pyfloat \<Rightarrow> pyfloat \<times> pyfloat" where
  "swap_example ra dec = (dec, ra)"

text \<open>The four corners of a region, already in sky coordinates.\<close>

definition corners_example :: "(pyfloat \<times> pyfloat) list" where
  "corners_example = [(Fin 0, Fin 0), (Fin 3, Fin 0), (Fin 3, Fin 3), (Fin 0, Fin 3)]"

section \<open>The truth/coadd matching notebook: cross-reference with the extragalactic catalog\<close>

text \<open>
  \<open>matched_gals\<close> holds one row for each matched truth galaxy; \<open>extragalactic_data\<close>
  holds the rows read from the extragalactic catalog (its column \<open>mag_i\<close> is renamed
  \<open>mag_i_extra\<close> by the merge).
  \<^verbatim>\<open>
  matched_gals = pd.merge(matched_gals, pd.DataFrame(extragalactic_data), 'left',
                          left_on='object_id', right_on='galaxy_id', suffixes=('', '_extra'))

  np.testing.assert_array_equal(matched_gals['object_id'], matched_gals['galaxy_id'])
  \<close>
  A left merge keeps the left rows in order; a left row is paired with each right row
  whose \<open>galaxy_id\<close> equals its \<open>object_id\<close>, in the order of the right table, and a
  left row without a partner is kept once with NaN in every right column (\<open>None\<close> in the
  model). \<open>assert_array_equal\<close> raises AssertionError unless the two columns have one
  length and are equal at every position; a NaN is not equal to an id.
\<close>

record matched_row =
  object_id :: int
  star :: bool
  sprinkled :: bool
  mag_i :: pyfloat
  shape_hsm_regauss_etot :: pyfloat

record extragalactic_row = galaxy_key +
  mag_i_extra :: pyfloat
  ellipticity_true :: pyfloat
  shear_1 :: pyfloat
  shear_2 :: pyfloat

type_synonym merged_row = "matched_row \<times> extragalactic_row option"

definition merge_left :: "matched_row list \<Rightarrow> extragalactic_row list \<Rightarrow> merged_row list" where
  "merge_left left right =
     concat (map (\<lambda>l. let partners = filter (\<lambda>r. galaxy_id r = object_id l) right
                       in if partners = [] then [(l, None)]
                          else map (\<lambda>r. (l, Some r)) partners) left)"

definition assert_array_equal :: "int list \<Rightarrow> int option list \<Rightarrow> py_error + unit" where
  "assert_array_equal x y =
     (if list_all2 (\<lambda>a b. b = Some a) x y then Inr () else Inl AssertionError)"

definition merge_and_assert :: "matched_row list \<Rightarrow> extragalactic_row list \<Rightarrow> py_error + merged_row list" where
  "merge_and_assert matched_gals extragalactic_data =
     (let merged = merge_left matched_gals extragalactic_data
      in case assert_array_equal (map (\<lambda>m. object_id (fst m)) merged)
                                 (map (\<lambda>m. map_option galaxy_id (snd m)) merged) of
           Inl e \<Rightarrow> Inl e
         | Inr _ \<Rightarrow> Inr merged)"

definition matched_example :: matched_row where
  "matched_example = \<lparr>object_id = 7, star = False, sprinkled = False, mag_i = Fin 22,
                       shape_hsm_regauss_etot = Fin (1/4)\<rparr>"

definition extragalactic_example :: extragalactic_row where
  "extragalactic_example = \<lparr>galaxy_id = 7, mag_i_extra = Fin (111/5),
                             ellipticity_true = Fin (1/5), shear_1 = Fin 0, shear_2 = Fin 0\<rparr>"

section \<open>The coadd-catalog notebook: reading and plotting the catalog\<close>

text \<open>
  The notebook starts by reading one table of a merged coadd file, and plots it.
  \<^verbatim>\<open>
  merged_tract_data_dir = '/global/projecta/projectdirs/lsst/global/in2p3/Run1.1/coadd_catalog/'

  tract, patch = 4849, 16
  basename = 'merged_tract_%d.hdf5' % tract
  key = 'coadd_%d_%2d' % (tract, patch)

  merged_tract_file = os.path.join(merged_tract_data_dir, basename)

  df = pd.read_hdf(merged_tract_file, key=key)

  print(len(df), "coadd objects")

  plt.figure(figsize=(8,8))
  plt.scatter(df['g_mag'] - df['r_mag'], df['r_mag'] - df['i_mag'], marker='.')
  \<close>
  Python formats a non-negative integer with \<open>%d\<close> as its decimal digits and with
  \<open>%2d\<close> as its decimal digits after as many spaces as it takes to fill two columns.
  \<open>os.path.join(a, b)\<close> is \<open>b\<close> when \<open>b\<close> starts with a slash, \<open>a + b\<close> when \<open>a\<close>
  is empty or ends with a slash, and \<open>a + '/' + b\<close> otherwise.
\<close>

definition digit_char :: "nat \<Rightarrow> char" where
  "digit_char d = ''0123456789'' ! d"

function format_d :: "nat \<Rightarrow> string" where
  "format_d n = (if n < 10 then [digit_char n] else format_d (n div 10) @ [digit_char (n mod 10)])"
  by pat_completeness auto

termination
  by (relation "measure id") auto

declare format_d.simps [simp del]

definition format_2d :: "nat \<Rightarrow> string" where
  "format_2d n = replicate (2 - length (format_d n)) CHR '' '' @ format_d n"




















section \<open>Coordinate computations of the notebooks\<close>







section \<open>Properties\<close>

subsection \<open>Signal-to-noise selections\<close>

lemma fl_lt_trans_le: "fl_lt x (Fin a) \<Longrightarrow> a \<le> b \<Longrightarrow> fl_lt x (Fin b)"
  by (cases x) auto

lemma take_mask_map: "take_mask (map P xs) xs = filter P xs"
  by (induction xs) (auto simp: take_mask_def)

lemma err_mask_eq:
  "err_mask d thr = map (\<lambda>r. fl_lt (g_mag_err r) thr \<and> fl_lt (r_mag_err r) thr) d"
  by (induction d) (auto simp: err_mask_def mask_and_def lt_scalar_def)

lemma good_snr_eq:
  "good_snr (snr_cells d) =
     filter (\<lambda>r. fl_lt (g_mag_err r) (Fin (1/25)) \<and> fl_lt (r_mag_err r) (Fin (1/25))) d"
  by (simp add: snr_cells_def good_snr_cell_def bright_stars_cell_def Let_def
      err_mask_eq take_mask_map)

lemma bright_stars_eq:
  "bright_stars (snr_cells d) =
     filter (\<lambda>r. fl_lt (g_mag_err r) (Fin (1/100)) \<and> fl_lt (r_mag_err r) (Fin (1/100))) d"
  by (simp add: snr_cells_def good_snr_cell_def bright_stars_cell_def Let_def
      err_mask_eq take_mask_map)

lemma bright_is_filter_of_good:
  "bright_stars (snr_cells d) =
     filter (\<lambda>r. fl_lt (g_mag_err r) (Fin (1/100)) \<and> fl_lt (r_mag_err r) (Fin (1/100)))
       (good_snr (snr_cells d))"
proof -
  have le: "(1/100 :: rat) \<le> 1/25"
    by simp
  have "\<And>x. fl_lt x (Fin (1/100)) \<Longrightarrow> fl_lt x (Fin (1/25))"
    by (erule fl_lt_trans_le) (rule le)
  then show ?thesis
    unfolding good_snr_eq bright_stars_eq filter_filter
    by (intro filter_cong) auto
qed

text \<open>
  C9. For every dataframe, the bright-star selection (both magnitude errors below 1/100)
  is contained in the good-SNR selection (both magnitude errors below 1/25): every row of
  \<open>bright_stars\<close> is a row of \<open>good_snr\<close>, and \<open>bright_stars\<close> lists them in the order
  in which \<open>good_snr\<close> does.
\<close>

theorem bright_stars_subset_good_snr:
  "set (bright_stars (snr_cells d)) \<subseteq> set (good_snr (snr_cells d))
   \<and> subseq (bright_stars (snr_cells d)) (good_snr (snr_cells d))"
proof -
  let ?P = "\<lambda>r. fl_lt (g_mag_err r) (Fin (1/100)) \<and> fl_lt (r_mag_err r) (Fin (1/100))"
  have eq: "bright_stars (snr_cells d) = filter ?P (good_snr (snr_cells d))"
    by (rule bright_is_filter_of_good)
  have "set (filter ?P (good_snr (snr_cells d))) \<subseteq> set (good_snr (snr_cells d))"
    by auto
  moreover have "subseq (filter ?P (good_snr (snr_cells d))) (good_snr (snr_cells d))"
    by (rule subseq_filter_left)
  ultimately show ?thesis
    unfolding eq [symmetric] by simp
qed

theorem bright_stars_subset_good_snr_witness:
  "set (bright_stars (snr_cells df_example)) \<subseteq> set (good_snr (snr_cells df_example))
   \<and> length (bright_stars (snr_cells df_example)) = 1
   \<and> length (good_snr (snr_cells df_example)) = 2"
  using bright_stars_subset_good_snr [of df_example]
  by (simp add: good_snr_eq bright_stars_eq df_example_def)

subsection \<open>The histogram of group sizes\<close>

lemma fold_max_Max: "fold max xs (x::nat) = Max (set (x # xs))"
  by (rule Max.set_eq_fold [symmetric])

lemma fold_max_ge: "y \<in> set (x # xs) \<Longrightarrow> y \<le> fold max xs (x::nat)"
  unfolding fold_max_Max by (rule Max_ge) simp_all

lemma fold_max_in: "fold max xs (x::nat) \<in> set (x # xs)"
  unfolding fold_max_Max by (rule Max_in) simp_all

lemma bincount_length:
  assumes "\<forall>x\<in>set xs. x < m"
  shows "length (bincount xs m) = m"
proof (cases xs)
  case Nil
  then show ?thesis by (simp add: bincount_def)
next
  case (Cons y ys)
  have "fold max ys y \<in> set xs"
    unfolding Cons by (rule fold_max_in)
  with assms have "fold max ys y < m" by blast
  then show ?thesis
    by (simp add: bincount_def Cons)
qed

lemma bincount_nth: "k < length (bincount xs m) \<Longrightarrow> bincount xs m ! k = count_list xs k"
  by (simp add: bincount_def del: upt_Suc)

lemma count_list_card: "count_list xs k = card {i. i < length xs \<and> xs ! i = k}"
proof -
  have "count_list xs k = length (filter ((=) k) xs)"
    by (rule count_list_eq_length_filter)
  also have "\<dots> = card {i. i < length xs \<and> k = xs ! i}"
    by (rule length_filter_conv_card)
  also have "{i. i < length xs \<and> k = xs ! i} = {i. i < length xs \<and> xs ! i = k}"
    by auto
  finally show ?thesis .
qed

lemma take_mask_map2: "take_mask (map P rs) (map f rs) = map f (filter P rs)"
  by (induction rs) (auto simp: take_mask_def)

lemma count_list_map_filter:
  "count_list (map f (filter P rs)) g = length (filter (\<lambda>r. f r = g \<and> P r) rs)"
  by (induction rs) auto

lemma reshape_ok:
  assumes "length xs = r * c"
  shows "\<exists>h. reshape r c xs = Inr h \<and> length h = r
     \<and> (\<forall>i<r. length (h ! i) = c \<and> (\<forall>j<c. h ! i ! j = xs ! (i * c + j)))"
proof -
  have "i * c + c \<le> r * c" if "i < r" for i
  proof -
    from that have "Suc i \<le> r" by simp
    then have "Suc i * c \<le> r * c" by (rule mult_le_mono1)
    then show ?thesis by simp
  qed
  note le = this
  have "min (r * c - i * c) c = c" if "i < r" for i
    using le [OF that] by simp
  then show ?thesis using assms
    by (auto simp: reshape_def add.commute simp del: upt_Suc)
qed

lemma pair_code_inj:
  fixes n :: nat
  assumes "t < n" "t' < n" "c * n + t = c' * n + t'"
  shows "c = c' \<and> t = t'"
proof -
  have "(c * n + t) div n = c" "(c * n + t) mod n = t"
    using assms(1) by simp_all
  moreover have "(c' * n + t') div n = c'" "(c' * n + t') mod n = t'"
    using assms(2) by simp_all
  ultimately show ?thesis using assms(3) by metis
qed

lemma pair_code_bound:
  fixes n :: nat
  assumes "t < n" "c < n"
  shows "c * n + t < n * n"
proof -
  from assms(2) have "Suc c \<le> n" by simp
  then have "Suc c * n \<le> n * n" by (rule mult_le_mono1)
  with assms(1) show ?thesis by simp
qed

lemma encode_pairs_nth:
  "g < length a \<Longrightarrow> g < length b \<Longrightarrow> encode_pairs a n b ! g = a ! g * n + b ! g"
  by (simp add: encode_pairs_def)

lemma encode_pairs_length: "length (encode_pairs a n b) = min (length a) (length b)"
  by (simp add: encode_pairs_def)

lemma amax_Inr: "xs \<noteq> [] \<Longrightarrow> amax xs = Inr (Max (set xs))"
  by (cases xs) (simp_all add: fold_max_Max del: set_simps)


lemma n_truth_nth:
  assumes "\<forall>r\<in>set results. group_id r < ng" "g < ng"
  shows "length (bincount (take_mask (map (\<lambda>r. catalog_key r = ''truth'') results)
            (map group_id results)) ng) = ng"
    and "bincount (take_mask (map (\<lambda>r. catalog_key r = ''truth'') results)
            (map group_id results)) ng ! g = truth_members results g"
proof -
  let ?xs = "take_mask (map (\<lambda>r. catalog_key r = ''truth'') results) (map group_id results)"
  have xs: "?xs = map group_id (filter (\<lambda>r. catalog_key r = ''truth'') results)"
    by (rule take_mask_map2)
  have "\<forall>x\<in>set ?xs. x < ng"
    unfolding xs using assms(1) by auto
  then show len: "length (bincount ?xs ng) = ng"
    by (rule bincount_length)
  have "bincount ?xs ng ! g = count_list ?xs g"
    using assms(2) len by (simp add: bincount_nth)
  also have "\<dots> = truth_members results g"
    unfolding xs truth_members_def by (rule count_list_map_filter)
  finally show "bincount ?xs ng ! g = truth_members results g" .
qed

lemma n_coadd_nth:
  assumes "\<forall>r\<in>set results. group_id r < ng" "g < ng"
  shows "length (bincount (take_mask (map Not (map (\<lambda>r. catalog_key r = ''truth'') results))
            (map group_id results)) ng) = ng"
    and "bincount (take_mask (map Not (map (\<lambda>r. catalog_key r = ''truth'') results))
            (map group_id results)) ng ! g = coadd_members results g"
proof -
  let ?xs = "take_mask (map Not (map (\<lambda>r. catalog_key r = ''truth'') results))
               (map group_id results)"
  have "?xs = take_mask (map (\<lambda>r. catalog_key r \<noteq> ''truth'') results) (map group_id results)"
    by (simp add: comp_def)
  also have "\<dots> = map group_id (filter (\<lambda>r. catalog_key r \<noteq> ''truth'') results)"
    by (rule take_mask_map2)
  finally have xs: "?xs = map group_id (filter (\<lambda>r. catalog_key r \<noteq> ''truth'') results)" .
  have "\<forall>x\<in>set ?xs. x < ng"
    unfolding xs using assms(1) by auto
  then show len: "length (bincount ?xs ng) = ng"
    by (rule bincount_length)
  have "bincount ?xs ng ! g = count_list ?xs g"
    using assms(2) len by (simp add: bincount_nth)
  also have "\<dots> = coadd_members results g"
    unfolding xs coadd_members_def by (rule count_list_map_filter)
  finally show "bincount ?xs ng ! g = coadd_members results g" .
qed


lemma hist_cell_vars:
  assumes ne: "results \<noteq> []"
  shows "\<exists>h. hist_cell results = Inr h
     \<and> truth_mask h = map (\<lambda>r. catalog_key r = ''truth'') results
     \<and> coadd_mask h = map (\<lambda>r. catalog_key r \<noteq> ''truth'') results
     \<and> n_groups h = Max (set (map group_id results)) + 1
     \<and> length (n_truth h) = n_groups h \<and> length (n_coadd h) = n_groups h
     \<and> (\<forall>g<n_groups h. n_truth h ! g = truth_members results g
            \<and> n_coadd h ! g = coadd_members results g)
     \<and> n_max h = max (Max (set (n_truth h))) (Max (set (n_coadd h))) + 1
     \<and> codes h = encode_pairs (n_coadd h) (n_max h) (n_truth h)
     \<and> reshape (n_max h) (n_max h) (bincount (codes h) (n_max h * n_max h)) = Inr (hist_2d h)"
proof -
  define tm where "tm = map (\<lambda>r. catalog_key r = ''truth'') results"
  define gmax where "gmax = Max (set (map group_id results))"
  define ng where "ng = gmax + 1"
  define nt where "nt = bincount (take_mask tm (map group_id results)) ng"
  define nc where "nc = bincount (take_mask (map Not tm) (map group_id results)) ng"
  define nm where "nm = max (Max (set nt)) (Max (set nc)) + 1"
  define cs where "cs = encode_pairs nc nm nt"
  have gids: "map group_id results \<noteq> []" using ne by simp
  have a1: "amax (map group_id results) = Inr gmax"
    unfolding gmax_def by (rule amax_Inr [OF gids])
  have bound: "\<forall>r\<in>set results. group_id r < ng"
  proof
    fix r assume "r \<in> set results"
    then have "group_id r \<in> set (map group_id results)" by simp
    then have "group_id r \<le> gmax" unfolding gmax_def by (intro Max_ge) simp_all
    then show "group_id r < ng" by (simp add: ng_def)
  qed
  have lt: "length nt = ng" unfolding nt_def tm_def by (rule n_truth_nth(1) [OF bound, of 0]) (simp add: ng_def)
  have lc: "length nc = ng" unfolding nc_def tm_def by (rule n_coadd_nth(1) [OF bound, of 0]) (simp add: ng_def)
  have nt_ne: "nt \<noteq> []" and nc_ne: "nc \<noteq> []" using lt lc by (auto simp: ng_def)
  have a2: "amax nt = Inr (Max (set nt))" by (rule amax_Inr [OF nt_ne])
  have a3: "amax nc = Inr (Max (set nc))" by (rule amax_Inr [OF nc_ne])
  have ntg: "nt ! g < nm" if "g < ng" for g
  proof -
    have "nt ! g \<in> set nt" using that lt by simp
    then have "nt ! g \<le> Max (set nt)" by (intro Max_ge) simp_all
    then show ?thesis by (simp add: nm_def)
  qed
  have ncg: "nc ! g < nm" if "g < ng" for g
  proof -
    have "nc ! g \<in> set nc" using that lc by simp
    then have "nc ! g \<le> Max (set nc)" by (intro Max_ge) simp_all
    then show ?thesis by (simp add: nm_def)
  qed
  have lcs: "length cs = ng" by (simp add: cs_def encode_pairs_length lt lc)
  have "\<forall>x\<in>set cs. x < nm * nm"
  proof
    fix x assume "x \<in> set cs"
    then obtain g where g: "g < ng" and x: "x = cs ! g"
      using lcs by (auto simp: in_set_conv_nth)
    have "cs ! g = nc ! g * nm + nt ! g"
      unfolding cs_def using g lt lc by (simp add: encode_pairs_nth)
    with x pair_code_bound [OF ntg [OF g] ncg [OF g]] show "x < nm * nm" by simp
  qed
  then have "length (bincount cs (nm * nm)) = nm * nm" by (rule bincount_length)
  from reshape_ok [OF this] obtain h2 where
    h2: "reshape nm nm (bincount cs (nm * nm)) = Inr h2" by blast
  let ?h = "\<lparr>truth_mask = tm, coadd_mask = map Not tm, n_groups = ng, n_truth = nt,
             n_coadd = nc, n_max = nm, codes = cs, hist_2d = h2\<rparr>"
  have run: "hist_cell results = Inr ?h"
    using a1 a2 a3 h2
    unfolding hist_cell_def Let_def cs_def nm_def nt_def nc_def ng_def tm_def
    by (simp del: set_map)
  have members: "\<forall>g<ng. nt ! g = truth_members results g \<and> nc ! g = coadd_members results g"
    unfolding nt_def nc_def tm_def
    using n_truth_nth(2) [OF bound] n_coadd_nth(2) [OF bound] by simp
  show ?thesis
    apply (rule exI [of _ ?h])
    using run lt lc members h2
    by (simp add: ng_def gmax_def nm_def cs_def tm_def comp_def)
qed

text \<open>
  C6. For every non-empty table of matching results the group-counting cell returns, and
  every variable it assigns is determined by the table:
  \<^item> \<open>truth_mask\<close> marks the rows of the truth catalog and \<open>coadd_mask\<close> all other
    rows;
  \<^item> \<open>n_groups\<close> is the largest group id plus one, and \<open>n_truth\<close> and \<open>n_coadd\<close> hold,
    for each group id below \<open>n_groups\<close>, the number of truth rows and of coadd rows of
    that group;
  \<^item> \<open>n_max\<close> is the largest of all these counts plus one, so every per-group truth count
    and coadd count is strictly less than \<open>n_max\<close>;
  \<^item> the code of group \<open>g\<close> is \<open>n_coadd[g] * n_max + n_truth[g]\<close>; it lies in
    \<open>[0, n_max * n_max)\<close>, and two groups have the same code exactly when they have the
    same pair of counts (the encoding is injective on the pairs of counts);
  \<^item> \<open>hist_2d\<close> has \<open>n_max\<close> rows of \<open>n_max\<close> entries, and \<open>hist_2d[c][t]\<close> is the
    number of group ids \<open>g < n_groups\<close> with exactly \<open>t\<close> truth members and \<open>c\<close> coadd
    members, for all \<open>t, c < n_max\<close>.
  (On the empty table the cell raises ValueError at the first \<open>max()\<close>, lemma
  \<open>hist_cell_empty\<close>.)
\<close>

theorem hist_2d_counts_groups:
  assumes ne: "results \<noteq> []"
  shows "\<exists>h. hist_cell results = Inr h
     \<and> truth_mask h = map (\<lambda>r. catalog_key r = ''truth'') results
     \<and> coadd_mask h = map (\<lambda>r. catalog_key r \<noteq> ''truth'') results
     \<and> n_groups h = Max (group_id ` set results) + 1
     \<and> n_truth h = map (truth_members results) [0 ..< n_groups h]
     \<and> n_coadd h = map (coadd_members results) [0 ..< n_groups h]
     \<and> n_max h = Max ((\<lambda>g. max (truth_members results g) (coadd_members results g))
                        ` {..< n_groups h}) + 1
     \<and> (\<forall>g<n_groups h. truth_members results g < n_max h \<and> coadd_members results g < n_max h)
     \<and> codes h = map (\<lambda>g. coadd_members results g * n_max h + truth_members results g)
                      [0 ..< n_groups h]
     \<and> (\<forall>g<n_groups h. codes h ! g < n_max h * n_max h)
     \<and> (\<forall>g<n_groups h. \<forall>g'<n_groups h. codes h ! g = codes h ! g'
            \<longleftrightarrow> truth_members results g = truth_members results g'
                \<and> coadd_members results g = coadd_members results g')
     \<and> hist_2d h = map (\<lambda>c. map (\<lambda>t. card {g. g < n_groups h \<and> truth_members results g = t
                                              \<and> coadd_members results g = c})
                                 [0 ..< n_max h]) [0 ..< n_max h]"
proof -
  from hist_cell_vars [OF ne] obtain h where
    run: "hist_cell results = Inr h"
    and masks: "truth_mask h = map (\<lambda>r. catalog_key r = ''truth'') results"
      "coadd_mask h = map (\<lambda>r. catalog_key r \<noteq> ''truth'') results"
    and ng: "n_groups h = Max (set (map group_id results)) + 1"
    and lt: "length (n_truth h) = n_groups h" and lc: "length (n_coadd h) = n_groups h"
    and mem: "\<forall>g<n_groups h. n_truth h ! g = truth_members results g
                \<and> n_coadd h ! g = coadd_members results g"
    and nm: "n_max h = max (Max (set (n_truth h))) (Max (set (n_coadd h))) + 1"
    and cs: "codes h = encode_pairs (n_coadd h) (n_max h) (n_truth h)"
    and rs: "reshape (n_max h) (n_max h) (bincount (codes h) (n_max h * n_max h)) = Inr (hist_2d h)"
    by blast
  let ?n = "n_max h"
  let ?G = "n_groups h"
  have pos: "0 < ?G" by (simp add: ng)
  have q1: "n_groups h = Max (group_id ` set results) + 1"
    using ng by simp
  have q2: "n_truth h = map (truth_members results) [0 ..< ?G]"
    by (rule nth_equalityI) (simp_all add: lt mem)
  have q3: "n_coadd h = map (coadd_members results) [0 ..< ?G]"
    by (rule nth_equalityI) (simp_all add: lc mem)
  have st: "set (n_truth h) = truth_members results ` {..< ?G}"
    unfolding q2 [symmetric] by (subst q2) (auto simp: lessThan_atLeast0)
  have sc: "set (n_coadd h) = coadd_members results ` {..< ?G}"
    unfolding q3 [symmetric] by (subst q3) (auto simp: lessThan_atLeast0)
  have q4: "?n = Max ((\<lambda>g. max (truth_members results g) (coadd_members results g)) ` {..< ?G}) + 1"
  proof -
    have fin: "finite {..< ?G}" and ne': "{..< ?G} \<noteq> {}" using pos by auto
    let ?f = "\<lambda>g. max (truth_members results g) (coadd_members results g)"
    have finf: "finite (?f ` {..< ?G})" and nef: "?f ` {..< ?G} \<noteq> {}"
      and fint: "finite (truth_members results ` {..< ?G})"
      and net: "truth_members results ` {..< ?G} \<noteq> {}"
      and finc: "finite (coadd_members results ` {..< ?G})"
      and nec: "coadd_members results ` {..< ?G} \<noteq> {}"
      using fin ne' by simp_all
    have "Max (?f ` {..< ?G})
        = max (Max (truth_members results ` {..< ?G})) (Max (coadd_members results ` {..< ?G}))"
    proof (rule antisym)
      from Max_in [OF finf nef] obtain g where g: "g \<in> {..< ?G}"
        and eq: "Max (?f ` {..< ?G}) = ?f g" by auto
      have "truth_members results g \<le> Max (truth_members results ` {..< ?G})"
        using g by (intro Max_ge fint) simp
      moreover have "coadd_members results g \<le> Max (coadd_members results ` {..< ?G})"
        using g by (intro Max_ge finc) simp
      ultimately show "Max (?f ` {..< ?G})
          \<le> max (Max (truth_members results ` {..< ?G})) (Max (coadd_members results ` {..< ?G}))"
        unfolding eq by (rule max.mono)
    next
      from Max_in [OF fint net] obtain g where g: "g \<in> {..< ?G}"
        and eq: "Max (truth_members results ` {..< ?G}) = truth_members results g" by auto
      have "?f g \<le> Max (?f ` {..< ?G})"
        using g by (intro Max_ge finf) simp
      then have t: "Max (truth_members results ` {..< ?G}) \<le> Max (?f ` {..< ?G})"
        unfolding eq by simp
      from Max_in [OF finc nec] obtain g' where g': "g' \<in> {..< ?G}"
        and eq': "Max (coadd_members results ` {..< ?G}) = coadd_members results g'" by auto
      have "?f g' \<le> Max (?f ` {..< ?G})"
        using g' by (intro Max_ge finf) simp
      then have c: "Max (coadd_members results ` {..< ?G}) \<le> Max (?f ` {..< ?G})"
        unfolding eq' by simp
      from t c show "max (Max (truth_members results ` {..< ?G})) (Max (coadd_members results ` {..< ?G}))
          \<le> Max (?f ` {..< ?G})"
        by simp
    qed
    then show ?thesis by (simp add: nm st sc)
  qed
  have ntg: "n_truth h ! g < ?n" if "g < ?G" for g
  proof -
    have "n_truth h ! g \<in> set (n_truth h)" using that lt by simp
    then have "n_truth h ! g \<le> Max (set (n_truth h))" by (intro Max_ge) simp_all
    then show ?thesis by (simp add: nm)
  qed
  have ncg: "n_coadd h ! g < ?n" if "g < ?G" for g
  proof -
    have "n_coadd h ! g \<in> set (n_coadd h)" using that lc by simp
    then have "n_coadd h ! g \<le> Max (set (n_coadd h))" by (intro Max_ge) simp_all
    then show ?thesis by (simp add: nm)
  qed
  have tg: "truth_members results g < ?n" if "g < ?G" for g
    using ntg [OF that] mem that by simp
  have cg: "coadd_members results g < ?n" if "g < ?G" for g
    using ncg [OF that] mem that by simp
  have q5: "\<forall>g<?G. truth_members results g < ?n \<and> coadd_members results g < ?n"
    using tg cg by blast
  have lcs: "length (codes h) = ?G"
    by (simp add: cs encode_pairs_length lt lc)
  have code: "codes h ! g = coadd_members results g * ?n + truth_members results g"
    if "g < ?G" for g
    using that mem lt lc by (simp add: cs encode_pairs_nth)
  have q6: "codes h = map (\<lambda>g. coadd_members results g * ?n + truth_members results g) [0 ..< ?G]"
    by (rule nth_equalityI) (simp_all add: lcs code)
  have q7: "\<forall>g<?G. codes h ! g < ?n * ?n"
    using code pair_code_bound [OF tg cg] by simp
  have q8: "\<forall>g<?G. \<forall>g'<?G. codes h ! g = codes h ! g'
            \<longleftrightarrow> truth_members results g = truth_members results g'
                \<and> coadd_members results g = coadd_members results g'"
  proof (intro allI impI)
    fix g g' assume g: "g < ?G" and g': "g' < ?G"
    show "codes h ! g = codes h ! g'
            \<longleftrightarrow> truth_members results g = truth_members results g'
                \<and> coadd_members results g = coadd_members results g'"
      using pair_code_inj [OF tg [OF g] tg [OF g'],
              of "coadd_members results g" "coadd_members results g'"]
      by (auto simp: code [OF g] code [OF g'])
  qed
  have lb: "length (bincount (codes h) (?n * ?n)) = ?n * ?n"
    using rs by (auto simp: reshape_def split: if_splits)
  from reshape_ok [OF lb] rs have
    lh: "length (hist_2d h) = ?n"
    and rows: "\<forall>i<?n. length (hist_2d h ! i) = ?n
                 \<and> (\<forall>j<?n. hist_2d h ! i ! j = bincount (codes h) (?n * ?n) ! (i * ?n + j))"
    by auto
  have cell: "hist_2d h ! c ! t =
      card {g. g < ?G \<and> truth_members results g = t \<and> coadd_members results g = c}"
    if c: "c < ?n" and t: "t < ?n" for c t
  proof -
    have "hist_2d h ! c ! t = bincount (codes h) (?n * ?n) ! (c * ?n + t)"
      using rows c t by blast
    also have "\<dots> = count_list (codes h) (c * ?n + t)"
      by (rule bincount_nth) (simp add: lb pair_code_bound [OF t c])
    also have "\<dots> = card {g. g < length (codes h) \<and> codes h ! g = c * ?n + t}"
      by (rule count_list_card)
    also have "{g. g < length (codes h) \<and> codes h ! g = c * ?n + t}
        = {g. g < ?G \<and> truth_members results g = t \<and> coadd_members results g = c}"
    proof (rule Collect_cong)
      fix g
      show "(g < length (codes h) \<and> codes h ! g = c * ?n + t)
          = (g < ?G \<and> truth_members results g = t \<and> coadd_members results g = c)"
      proof (cases "g < ?G")
        case False
        then show ?thesis by (simp add: lcs)
      next
        case True
        show ?thesis
          using pair_code_inj [OF tg [OF True] t, of "coadd_members results g" c] True
          by (auto simp: lcs code [OF True])
      qed
    qed
    finally show ?thesis .
  qed
  have row: "hist_2d h ! c = map (\<lambda>t. card {g. g < ?G \<and> truth_members results g = t
                                              \<and> coadd_members results g = c}) [0 ..< ?n]"
    if c: "c < ?n" for c
  proof (rule nth_equalityI)
    show "length (hist_2d h ! c) = length (map (\<lambda>t. card {g. g < ?G \<and> truth_members results g = t
                                              \<and> coadd_members results g = c}) [0 ..< ?n])"
      using rows c by simp
  next
    fix t assume "t < length (hist_2d h ! c)"
    then have t: "t < ?n" using rows c by simp
    show "hist_2d h ! c ! t = map (\<lambda>t. card {g. g < ?G \<and> truth_members results g = t
                                              \<and> coadd_members results g = c}) [0 ..< ?n] ! t"
      using cell [OF c t] t by simp
  qed
  have q9: "hist_2d h = map (\<lambda>c. map (\<lambda>t. card {g. g < ?G \<and> truth_members results g = t
                                              \<and> coadd_members results g = c})
                                 [0 ..< ?n]) [0 ..< ?n]"
    by (rule nth_equalityI) (simp_all add: lh row)
  show ?thesis
    using run masks q1 q2 q3 q4 q5 q6 q7 q8 q9 by blast
qed

lemma hist_cell_example: "hist_cell results_example = Inr hist_example"
  unfolding hist_example_def by code_simp

lemma hist_cell_empty: "hist_cell [] = Inl ValueError"
  by (simp add: hist_cell_def)

theorem hist_2d_counts_groups_witness:
  "results_example \<noteq> []
   \<and> hist_cell results_example = Inr hist_example
   \<and> n_groups hist_example = Max (group_id ` set results_example) + 1
   \<and> n_max hist_example
       = Max ((\<lambda>g. max (truth_members results_example g) (coadd_members results_example g))
                ` {..< n_groups hist_example}) + 1
   \<and> hist_2d hist_example ! 1 ! 1
       = card {g. g < n_groups hist_example \<and> truth_members results_example g = 1
                  \<and> coadd_members results_example g = 1}
   \<and> hist_2d hist_example ! 1 ! 1 = 2
   \<and> hist_2d hist_example ! 0 ! 2
       = card {g. g < n_groups hist_example \<and> truth_members results_example g = 2
                  \<and> coadd_members results_example g = 0}
   \<and> hist_2d hist_example ! 0 ! 2 = 1"
proof -
  have ne: "results_example \<noteq> []"
    by (simp add: results_example_def)
  from hist_2d_counts_groups [OF ne] obtain h where
    run: "hist_cell results_example = Inr h"
    and ng: "n_groups h = Max (group_id ` set results_example) + 1"
    and nm: "n_max h
       = Max ((\<lambda>g. max (truth_members results_example g) (coadd_members results_example g))
                ` {..< n_groups h}) + 1"
    and hist: "hist_2d h = map (\<lambda>c. map (\<lambda>t. card {g. g < n_groups h
                                              \<and> truth_members results_example g = t
                                              \<and> coadd_members results_example g = c})
                                 [0 ..< n_max h]) [0 ..< n_max h]"
    by blast
  from run have h: "h = hist_example"
    by (simp add: hist_cell_example)
  have n: "n_max hist_example = 3" "hist_2d hist_example = [[1, 0, 1], [0, 2, 0], [0, 0, 0]]"
    by (simp_all add: hist_example_def)
  define K where "K = (\<lambda>c t. card {g. g < n_groups hist_example
                                  \<and> truth_members results_example g = t
                                  \<and> coadd_members results_example g = c})"
  have hist': "hist_2d hist_example = map (\<lambda>c. map (K c) [0 ..< 3]) [0 ..< 3]"
    unfolding K_def using hist [unfolded h n(1)] .
  have rows: "[0 ..< (3::nat)] = [0, 1, 2]"
    by (simp add: upt_rec)
  have "hist_2d hist_example ! 1 ! 1 = K 1 1" "hist_2d hist_example ! 0 ! 2 = K 0 2"
    unfolding hist' rows by simp_all
  then have c11: "hist_2d hist_example ! 1 ! 1
       = card {g. g < n_groups hist_example \<and> truth_members results_example g = 1
                  \<and> coadd_members results_example g = 1}"
    and c02: "hist_2d hist_example ! 0 ! 2
       = card {g. g < n_groups hist_example \<and> truth_members results_example g = 2
                  \<and> coadd_members results_example g = 0}"
    unfolding K_def by simp_all
  have v: "hist_2d hist_example ! 1 ! 1 = 2" "hist_2d hist_example ! 0 ! 2 = 1"
    by (simp_all add: n(2))
  show ?thesis
    using ne run [unfolded h] ng [unfolded h] nm [unfolded h] c11 c02 v by simp
qed

subsection \<open>The catalog that a selector returns\<close>

lemma gt_scalar_map: "gt_scalar (map f xs) c = map (\<lambda>x. fl_gt (f x) c) xs"
  by (simp add: gt_scalar_def)

lemma lt_scalar_map: "lt_scalar (map f xs) c = map (\<lambda>x. fl_lt (f x) c) xs"
  by (simp add: lt_scalar_def)

lemma mask_and_map: "mask_and (map p xs) (map q xs) = map (\<lambda>x. p x \<and> q x) xs"
  by (induction xs) (simp_all add: mask_and_def)

lemma nth_filter_upt: "map (\<lambda>i. xs ! i) (filter (\<lambda>i. P (xs ! i)) [0 ..< length xs]) = filter P xs"
proof (induction xs rule: rev_induct)
  case Nil
  then show ?case by simp
next
  case (snoc x xs)
  have "map (\<lambda>i. (xs @ [x]) ! i) (filter (\<lambda>i. P ((xs @ [x]) ! i)) [0 ..< length xs])
      = map (\<lambda>i. xs ! i) (filter (\<lambda>i. P (xs ! i)) [0 ..< length xs])"
    by (intro map_cong filter_cong) (auto simp: nth_append)
  with snoc show ?case by (simp add: nth_append)
qed

lemma take_index_np_where:
  "take_index (np_where (map Q xs)) (map f xs) = Inr (map f (filter Q xs))"
proof -
  have "map (\<lambda>i. map f xs ! i) (filter (\<lambda>i. map Q xs ! i) [0 ..< length xs])
      = map (\<lambda>i. f (xs ! i)) (filter (\<lambda>i. Q (xs ! i)) [0 ..< length xs])"
    by (intro map_cong filter_cong) auto
  also have "\<dots> = map f (map (\<lambda>i. xs ! i) (filter (\<lambda>i. Q (xs ! i)) [0 ..< length xs]))"
    by (simp add: comp_def)
  also have "\<dots> = map f (filter Q xs)"
    by (simp only: nth_filter_upt)
  finally show ?thesis
    by (simp add: take_index_def np_where_def)
qed

lemma add_records_eq:
  "add_records band rows cat = cat\<lparr>records := records cat @ map (new_record band) rows\<rparr>"
  by (induction rows arbitrary: cat) (simp_all add: add_records_def)


lemma get_quantities_one_filter:
  assumes "q \<in> set (quantities gc)" "max_mag \<noteq> NaN"
  shows "get_quantities gc q [Less_than q max_mag] =
     Inr \<lparr>col_galaxy_id = map galaxy_id (filter (\<lambda>g. fl_lt (quantity g q) max_mag) (galaxies gc)),
          col_ra_true = map ra_true (filter (\<lambda>g. fl_lt (quantity g q) max_mag) (galaxies gc)),
          col_dec_true = map dec_true (filter (\<lambda>g. fl_lt (quantity g q) max_mag) (galaxies gc)),
          col_band = map (\<lambda>g. quantity g q)
                       (filter (\<lambda>g. fl_lt (quantity g q) max_mag) (galaxies gc))\<rparr>"
  using assms by (simp add: get_quantities_def passes_def known_filter_def Let_def)

lemma region_mask_map:
  assumes "ra_range self = Some ra_r" "dec_range self = Some dec_r"
  shows "region_mask self (map (\<lambda>x. fst (f x)) xs) (map (\<lambda>x. snd (f x)) xs)
       = Inr (map (\<lambda>x. in_region ra_r dec_r (f x)) xs)"
  using assms
  by (simp add: region_mask_def gt_scalar_map lt_scalar_map mask_and_map in_region_def fl_gt_def)

lemma make_SourceCatalog_one:
  "make_SourceCatalog minimal (mag_cols [band]) =
     \<lparr>schema = minimal @ [\<lparr>name = ''mag_'' @ band, type = Float_type, doc = band @ ''-magnitude''\<rparr>],
      records = []\<rparr>"
  by (simp add: make_SourceCatalog_def mag_cols_def addField_def)

lemma RegionSelector_call_eq:
  assumes ra: "ra_range self = Some ra_r" and dec: "dec_range self = Some dec_r"
    and band: "format_bandname band \<in> set (quantities gc)" and nan: "max_mag \<noteq> NaN"
  shows "RegionSelector_call transform minimal self gc band max_mag =
     Inr \<lparr>schema = minimal @ [\<lparr>name = ''mag_'' @ band, type = Float_type, doc = band @ ''-magnitude''\<rparr>],
          records = map (\<lambda>g. new_record band
                               (galaxy_id g, fst (transform (ra_true g) (dec_true g)),
                                snd (transform (ra_true g) (dec_true g)), quantity g (format_bandname band)))
                      (filter (\<lambda>g. in_region ra_r dec_r (transform (ra_true g) (dec_true g)))
                         (filter (\<lambda>g. fl_lt (quantity g (format_bandname band)) max_mag) (galaxies gc)))\<rparr>"
proof -
  let ?rows = "filter (\<lambda>g. fl_lt (quantity g (format_bandname band)) max_mag) (galaxies gc)"
  let ?t = "\<lambda>g. transform (ra_true g) (dec_true g)"
  let ?Q = "\<lambda>g. in_region ra_r dec_r (?t g)"
  have rot: "map (\<lambda>(ra, dec). transform ra dec) (zip (map ra_true ?rows) (map dec_true ?rows))
      = map ?t ?rows"
    by (simp add: zip_map_map zip_same_conv_map)
  have m: "region_mask self (map fst (map ?t ?rows)) (map snd (map ?t ?rows))
      = Inr (map ?Q ?rows)"
    using region_mask_map [OF ra dec, of ?t ?rows] by (simp add: comp_def)
  have z: "zip (map galaxy_id (filter ?Q ?rows))
             (zip (map (\<lambda>g. fst (?t g)) (filter ?Q ?rows))
               (zip (map (\<lambda>g. snd (?t g)) (filter ?Q ?rows))
                    (map (\<lambda>g. quantity g (format_bandname band)) (filter ?Q ?rows))))
      = map (\<lambda>g. (galaxy_id g, fst (?t g), snd (?t g), quantity g (format_bandname band))) (filter ?Q ?rows)"
    by (simp add: zip_map_map zip_same_conv_map)
  have t1: "take_index (np_where (map ?Q ?rows)) (map galaxy_id ?rows) = Inr (map galaxy_id (filter ?Q ?rows))"
    by (rule take_index_np_where)
  have t2: "take_index (np_where (map ?Q ?rows)) (map fst (map ?t ?rows))
      = Inr (map (\<lambda>g. fst (?t g)) (filter ?Q ?rows))"
    using take_index_np_where [of ?Q ?rows "\<lambda>g. fst (?t g)"] by (simp add: comp_def)
  have t3: "take_index (np_where (map ?Q ?rows)) (map snd (map ?t ?rows))
      = Inr (map (\<lambda>g. snd (?t g)) (filter ?Q ?rows))"
    using take_index_np_where [of ?Q ?rows "\<lambda>g. snd (?t g)"] by (simp add: comp_def)
  have t4: "take_index (np_where (map ?Q ?rows)) (map (\<lambda>g. quantity g (format_bandname band)) ?rows)
      = Inr (map (\<lambda>g. quantity g (format_bandname band)) (filter ?Q ?rows))"
    by (rule take_index_np_where)
  show ?thesis
    unfolding RegionSelector_call_def Let_def get_quantities_one_filter [OF band nan]
    apply (simp only: gc_columns.select_convs sum.case rot m t1 t2 t3 t4 z add_records_eq
        make_SourceCatalog_one)
    apply (simp add: comp_def)
    done
qed


lemma new_record_lookup:
  "new_record band (i, ra, dec, mag) ''id'' = Some (Id_value i)"
  "new_record band (i, ra, dec, mag) ''coord_ra'' = Some (Angle_degrees ra)"
  "new_record band (i, ra, dec, mag) ''coord_dec'' = Some (Angle_degrees dec)"
  "new_record band (i, ra, dec, mag) (''mag_'' @ band) = Some (Float_value mag)"
  by (simp_all add: new_record_def)

text \<open>
  C5. For every galaxy catalog that has the band, every magnitude limit (a number) and
  every selector whose \<open>ra_range\<close> and \<open>dec_range\<close> have been set, \<open>__call__\<close> returns a
  catalog whose schema is the minimal schema followed by the one float column
  \<open>mag_<band>\<close>, and every record of it comes from a galaxy of the input: it holds the
  galaxy's id, its rotated position and its magnitude, the magnitude is strictly below
  \<open>max_mag\<close>, and the rotated right ascension and declination are strictly inside
  \<open>(ra_range[0], ra_range[1])\<close> and \<open>(dec_range[0], dec_range[1])\<close>.
\<close>

theorem RegionSelector_call_selects:
  assumes ra: "ra_range self = Some (ra_lo, ra_hi)"
    and dec: "dec_range self = Some (dec_lo, dec_hi)"
    and band: "format_bandname band \<in> set (quantities gc)"
    and nan: "max_mag \<noteq> NaN"
  shows "\<exists>cat. RegionSelector_call transform minimal self gc band max_mag = Inr cat
     \<and> schema cat = minimal @ [\<lparr>name = ''mag_'' @ band, type = Float_type,
                                doc = band @ ''-magnitude''\<rparr>]
     \<and> (\<forall>r\<in>set (records cat). \<exists>g\<in>set (galaxies gc). \<exists>ra dec.
            transform (ra_true g) (dec_true g) = (ra, dec)
          \<and> r ''id'' = Some (Id_value (galaxy_id g))
          \<and> r ''coord_ra'' = Some (Angle_degrees ra)
          \<and> r ''coord_dec'' = Some (Angle_degrees dec)
          \<and> r (''mag_'' @ band) = Some (Float_value (quantity g (format_bandname band)))
          \<and> fl_lt (quantity g (format_bandname band)) max_mag
          \<and> fl_lt ra_lo ra \<and> fl_lt ra ra_hi \<and> fl_lt dec_lo dec \<and> fl_lt dec dec_hi)"
proof -
  let ?t = "\<lambda>g. transform (ra_true g) (dec_true g)"
  let ?cat = "\<lparr>schema = minimal @ [\<lparr>name = ''mag_'' @ band, type = Float_type, doc = band @ ''-magnitude''\<rparr>],
          records = map (\<lambda>g. new_record band
                               (galaxy_id g, fst (?t g), snd (?t g), quantity g (format_bandname band)))
                      (filter (\<lambda>g. in_region (ra_lo, ra_hi) (dec_lo, dec_hi) (?t g))
                         (filter (\<lambda>g. fl_lt (quantity g (format_bandname band)) max_mag) (galaxies gc)))\<rparr>"
  have run: "RegionSelector_call transform minimal self gc band max_mag = Inr ?cat"
    by (rule RegionSelector_call_eq [OF ra dec band nan])
  have recs: "\<exists>g\<in>set (galaxies gc). \<exists>ra dec.
            transform (ra_true g) (dec_true g) = (ra, dec)
          \<and> r ''id'' = Some (Id_value (galaxy_id g))
          \<and> r ''coord_ra'' = Some (Angle_degrees ra)
          \<and> r ''coord_dec'' = Some (Angle_degrees dec)
          \<and> r (''mag_'' @ band) = Some (Float_value (quantity g (format_bandname band)))
          \<and> fl_lt (quantity g (format_bandname band)) max_mag
          \<and> fl_lt ra_lo ra \<and> fl_lt ra ra_hi \<and> fl_lt dec_lo dec \<and> fl_lt dec dec_hi"
    if "r \<in> set (records ?cat)" for r
  proof -
    from that obtain g where g: "g \<in> set (galaxies gc)"
      and mag: "fl_lt (quantity g (format_bandname band)) max_mag"
      and reg: "in_region (ra_lo, ra_hi) (dec_lo, dec_hi) (?t g)"
      and r: "r = new_record band (galaxy_id g, fst (?t g), snd (?t g), quantity g (format_bandname band))"
      by auto
    have "?t g = (fst (?t g), snd (?t g))" by simp
    moreover from reg have "fl_lt ra_lo (fst (?t g))" "fl_lt (fst (?t g)) ra_hi"
      "fl_lt dec_lo (snd (?t g))" "fl_lt (snd (?t g)) dec_hi"
      by (simp_all add: in_region_def)
    ultimately show ?thesis
      using g mag unfolding r new_record_lookup by blast
  qed
  show ?thesis
    apply (rule exI [of _ ?cat])
    using run recs by simp
qed

lemma RegionSelector_call_unset:
  assumes "format_bandname band \<in> set (quantities gc)" "max_mag \<noteq> NaN"
  shows "RegionSelector_call transform minimal RegionSelector_init gc band max_mag = Inl AttributeError"
  unfolding RegionSelector_call_def Let_def get_quantities_one_filter [OF assms]
  by (simp add: region_mask_def RegionSelector_init_def)

lemma RegionSelector_call_unknown_band:
  assumes "format_bandname band \<notin> set (quantities gc)"
  shows "RegionSelector_call transform minimal self gc band max_mag = Inl ValueError"
  using assms by (simp add: RegionSelector_call_def get_quantities_def)

lemma RegionSelector_call_nan:
  "RegionSelector_call transform minimal self gc band NaN = Inl ValueError"
  by (simp add: RegionSelector_call_def get_quantities_def known_filter_def)

theorem RegionSelector_call_selects_witness:
  "ra_range selector_example = Some (Fin 0, Fin 3)
   \<and> dec_range selector_example = Some (Fin 0, Fin 3)
   \<and> format_bandname ''r'' \<in> set (quantities galaxy_catalog_example)
   \<and> (\<exists>cat. RegionSelector_call swap_example minimal_example selector_example
               galaxy_catalog_example ''r'' (Fin (49/2)) = Inr cat
     \<and> schema cat = minimal_example @ [\<lparr>name = ''mag_r'', type = Float_type,
                                        doc = ''r-magnitude''\<rparr>]
     \<and> (\<forall>r\<in>set (records cat). \<exists>g\<in>set (galaxies galaxy_catalog_example). \<exists>ra dec.
            swap_example (ra_true g) (dec_true g) = (ra, dec)
          \<and> r ''id'' = Some (Id_value (galaxy_id g))
          \<and> r ''coord_ra'' = Some (Angle_degrees ra)
          \<and> r ''coord_dec'' = Some (Angle_degrees dec)
          \<and> r ''mag_r'' = Some (Float_value (quantity g ''mag_true_r_lsst''))
          \<and> fl_lt (quantity g ''mag_true_r_lsst'') (Fin (49/2))
          \<and> fl_lt (Fin 0) ra \<and> fl_lt ra (Fin 3) \<and> fl_lt (Fin 0) dec \<and> fl_lt dec (Fin 3)))"
proof -
  have h1: "ra_range selector_example = Some (Fin 0, Fin 3)"
    and h2: "dec_range selector_example = Some (Fin 0, Fin 3)"
    by (simp_all add: selector_example_def)
  have h3: "format_bandname ''r'' \<in> set (quantities galaxy_catalog_example)"
    by (simp add: galaxy_catalog_example_def format_bandname_def)
  have h4: "Fin (49/2) \<noteq> NaN"
    by simp
  from RegionSelector_call_selects [OF h1 h2 h3 h4, of swap_example minimal_example]
  show ?thesis
    using h1 h2 h3 by (simp add: format_bandname_def)
qed

lemma RegionSelector_call_example:
  "map_sum id (\<lambda>cat. map (\<lambda>r. (r ''id'', r ''coord_ra'', r ''coord_dec'', r ''mag_r'')) (records cat))
     (RegionSelector_call swap_example minimal_example selector_example
        galaxy_catalog_example ''r'' (Fin (49/2)))
   = Inr [(Some (Id_value 10), Some (Angle_degrees (Fin 1)), Some (Angle_degrees (Fin 1)),
           Some (Float_value (Fin 20))),
          (Some (Id_value 13), Some (Angle_degrees (Fin 2)), Some (Angle_degrees (Fin 2)),
           Some (Float_value (Fin 24)))]"
proof -
  have h1: "ra_range selector_example = Some (Fin 0, Fin 3)"
    and h2: "dec_range selector_example = Some (Fin 0, Fin 3)"
    by (simp_all add: selector_example_def)
  have h3: "format_bandname ''r'' \<in> set (quantities galaxy_catalog_example)"
    by (simp add: galaxy_catalog_example_def format_bandname_def)
  have h4: "Fin (49/2) \<noteq> NaN"
    by simp
  show ?thesis
    unfolding RegionSelector_call_eq [OF h1 h2 h3 h4]
    by (simp add: galaxy_catalog_example_def swap_example_def in_region_def new_record_def
        format_bandname_def)
qed

subsection \<open>Row filters\<close>

lemma filter_on_healpix_nonempty:
  assumes "hp \<noteq> []"
  shows "dtype (filter_on_healpix list_of_healpix hp) = Bool_dtype
    \<and> length (items (filter_on_healpix list_of_healpix hp)) = length hp
    \<and> (\<forall>i<length hp. items (filter_on_healpix list_of_healpix hp) ! i
           = (hp ! i \<in> set list_of_healpix))"
  using assms by (simp add: filter_on_healpix_def np_array_def)

lemma filter_on_healpix_items:
  "length (items (filter_on_healpix list_of_healpix hp)) = length hp
    \<and> (\<forall>i<length hp. items (filter_on_healpix list_of_healpix hp) ! i
           = (hp ! i \<in> set list_of_healpix))"
  by (simp add: filter_on_healpix_def np_array_def)

lemma filter_on_dist_mask:
  assumes "length ra = length dec"
  shows "dtype (filter_on_dist angularSeparation ra dec) = Bool_dtype
    \<and> length (items (filter_on_dist angularSeparation ra dec)) = length ra
    \<and> (\<forall>i<length ra. items (filter_on_dist angularSeparation ra dec) ! i
           = fl_lt (angularSeparation (ra ! i) (dec ! i) (Fin (546 / 10)) (Fin (- 28)))
               (Fin (2 / 10)))"
  using assms
  by (simp add: filter_on_dist_def np_less_def lt_scalar_def center_ra_def center_dec_def
      radius_def)

text \<open>
  C7. On the empty array \<open>filter_on_healpix\<close> returns \<open>np.array([])\<close>, an array of
  dtype \<open>float64\<close> and not a boolean array. (On every other input its result is the
  boolean array of the memberships in \<open>list_of_healpix\<close>, and \<open>filter_on_dist\<close>
  returns the boolean array of the separations below 0.2 degrees on every input, as the
  three lemmas above state.)
\<close>

theorem filter_on_healpix_empty_not_boolean:
  "filter_on_healpix [9001, 9002] [] = \<lparr>dtype = Float64_dtype, items = []\<rparr>
   \<and> dtype (filter_on_healpix [9001, 9002] []) \<noteq> Bool_dtype"
  by (simp add: filter_on_healpix_def np_array_def)

subsection \<open>The coordinate ranges of a selector\<close>

lemma fl_le_trans: "fl_le a b \<Longrightarrow> fl_le b c \<Longrightarrow> fl_le a c"
  by (cases a; cases b; cases c) simp_all

lemma fl_le_refl: "a \<noteq> NaN \<Longrightarrow> fl_le a a"
  by (cases a) simp_all

lemma min_step_le:
  assumes "a \<noteq> NaN" "b \<noteq> NaN"
  shows "fl_le (if fl_lt a b then a else b) a" "fl_le (if fl_lt a b then a else b) b"
  using assms by (cases a; cases b; simp)+

lemma max_step_ge:
  assumes "a \<noteq> NaN" "b \<noteq> NaN"
  shows "fl_le a (if fl_gt a b then a else b)" "fl_le b (if fl_gt a b then a else b)"
  using assms by (cases a; cases b; simp add: fl_gt_def)+

lemma fold_min_props:
  assumes "cur \<noteq> NaN" "NaN \<notin> set xs"
  shows "fold (\<lambda>item cur. if fl_lt item cur then item else cur) xs cur \<noteq> NaN
     \<and> fl_le (fold (\<lambda>item cur. if fl_lt item cur then item else cur) xs cur) cur
     \<and> (\<forall>x\<in>set xs. fl_le (fold (\<lambda>item cur. if fl_lt item cur then item else cur) xs cur) x)"
  using assms
proof (induction xs arbitrary: cur)
  case Nil
  then show ?case by (simp add: fl_le_refl)
next
  case (Cons y ys)
  let ?c = "if fl_lt y cur then y else cur"
  let ?r = "fold (\<lambda>item cur. if fl_lt item cur then item else cur) ys ?c"
  from Cons.prems have y: "y \<noteq> NaN" and ys: "NaN \<notin> set ys" by auto
  have c: "?c \<noteq> NaN" using y Cons.prems(1) by simp
  from Cons.IH [OF c ys] have r: "?r \<noteq> NaN" "fl_le ?r ?c" "\<forall>x\<in>set ys. fl_le ?r x"
    by blast+
  have "fl_le ?r y" by (rule fl_le_trans [OF r(2) min_step_le(1) [OF y Cons.prems(1)]])
  moreover have "fl_le ?r cur" by (rule fl_le_trans [OF r(2) min_step_le(2) [OF y Cons.prems(1)]])
  ultimately show ?case using r by simp
qed

lemma fold_max_props:
  assumes "cur \<noteq> NaN" "NaN \<notin> set xs"
  shows "fold (\<lambda>item cur. if fl_gt item cur then item else cur) xs cur \<noteq> NaN
     \<and> fl_le cur (fold (\<lambda>item cur. if fl_gt item cur then item else cur) xs cur)
     \<and> (\<forall>x\<in>set xs. fl_le x (fold (\<lambda>item cur. if fl_gt item cur then item else cur) xs cur))"
  using assms
proof (induction xs arbitrary: cur)
  case Nil
  then show ?case by (simp add: fl_le_refl)
next
  case (Cons y ys)
  let ?c = "if fl_gt y cur then y else cur"
  let ?r = "fold (\<lambda>item cur. if fl_gt item cur then item else cur) ys ?c"
  from Cons.prems have y: "y \<noteq> NaN" and ys: "NaN \<notin> set ys" by auto
  have c: "?c \<noteq> NaN" using y Cons.prems(1) by simp
  from Cons.IH [OF c ys] have r: "?r \<noteq> NaN" "fl_le ?c ?r" "\<forall>x\<in>set ys. fl_le x ?r"
    by blast+
  have "fl_le y ?r" by (rule fl_le_trans [OF max_step_ge(1) [OF y Cons.prems(1)] r(2)])
  moreover have "fl_le cur ?r" by (rule fl_le_trans [OF max_step_ge(2) [OF y Cons.prems(1)] r(2)])
  ultimately show ?case using r by simp
qed

lemma py_min_finite:
  assumes "xs \<noteq> []" "NaN \<notin> set xs"
  shows "\<exists>m. py_min xs = Inr m \<and> m \<noteq> NaN \<and> (\<forall>x\<in>set xs. fl_le m x)"
proof -
  from assms(1) obtain y ys where xs: "xs = y # ys" by (cases xs) auto
  with assms(2) have "y \<noteq> NaN" "NaN \<notin> set ys" by auto
  from fold_min_props [OF this] show ?thesis by (simp add: xs)
qed

lemma py_max_finite:
  assumes "xs \<noteq> []" "NaN \<notin> set xs"
  shows "\<exists>m. py_max xs = Inr m \<and> m \<noteq> NaN \<and> (\<forall>x\<in>set xs. fl_le x m)"
proof -
  from assms(1) obtain y ys where xs: "xs = y # ys" by (cases xs) auto
  with assms(2) have "y \<noteq> NaN" "NaN \<notin> set ys" by auto
  from fold_max_props [OF this] show ?thesis by (simp add: xs)
qed


lemma fold_min_in:
  "fold (\<lambda>item cur. if fl_lt item cur then item else cur) xs cur \<in> set (cur # xs)"
proof (induction xs arbitrary: cur)
  case Nil
  show ?case by simp
next
  case (Cons y ys)
  from Cons.IH [of "if fl_lt y cur then y else cur"] show ?case
    by (auto split: if_splits)
qed

lemma fold_max_in':
  "fold (\<lambda>item cur. if fl_gt item cur then item else cur) xs cur \<in> set (cur # xs)"
proof (induction xs arbitrary: cur)
  case Nil
  show ?case by simp
next
  case (Cons y ys)
  from Cons.IH [of "if fl_gt y cur then y else cur"] show ?case
    by (auto split: if_splits)
qed

lemma py_min_in: "py_min xs = Inr m \<Longrightarrow> m \<in> set xs"
  using fold_min_in by (cases xs) auto

lemma py_max_in: "py_max xs = Inr m \<Longrightarrow> m \<in> set xs"
  using fold_max_in' by (cases xs) auto

lemma set_coord_range_example:
  "set_coord_range (\<lambda>p. p) corners_example RegionSelector_init = Inr selector_example"
  by (simp add: set_coord_range_def corners_example_def RegionSelector_init_def
      selector_example_def fl_gt_def)

lemma set_coord_range_empty: "set_coord_range pixelToSky [] self = Inl ValueError"
  by (simp add: set_coord_range_def)

lemma set_coord_range_nan:
  "set_coord_range (\<lambda>p. p) [(NaN, Fin 0), (Fin 1, Fin 0)] RegionSelector_init
     = Inr \<lparr>ra_range = Some (NaN, NaN), dec_range = Some (Fin 0, Fin 0)\<rparr>"
  by (simp add: set_coord_range_def RegionSelector_init_def fl_gt_def)

lemma RegionSelector_call_never_set:
  "RegionSelector_call transform minimal RegionSelector_init gc band max_mag
     = (case get_quantities gc (format_bandname band)
               [Less_than (format_bandname band) max_mag] of
          Inl e \<Rightarrow> Inl e
        | Inr gc_cols \<Rightarrow> Inl AttributeError)"
  by (simp add: RegionSelector_call_def region_mask_def RegionSelector_init_def Let_def
      split: sum.splits)

text \<open>
  C4, as the code has it. The repository defines the class \<open>RegionSelector\<close> (with its
  subclasses \<open>CcdSelector\<close> and \<open>PatchSelector\<close>), which owns the two attributes
  \<open>ra_range\<close> and \<open>dec_range\<close>. For every non-empty list of corners whose sky
  coordinates are not NaN, \<open>_set_coord_range\<close> replaces both attributes, whatever they
  held before: \<open>ra_range\<close> becomes the pair (minimum, maximum) of the right ascensions
  of the corners and \<open>dec_range\<close> the pair (minimum, maximum) of their declinations.
  Each of the four bounds is the coordinate of one of the corners, and the coordinate of
  every corner lies between the lower and the upper bound; so lower \<open>\<le>\<close> upper.
  \<open>__call__\<close> needs the two attributes: on a selector on which they were never set it
  returns no catalog, whatever the catalog, the band and the limit are: it raises an
  exception (lemma \<open>RegionSelector_call_never_set\<close> says which). Without corners
  \<open>_set_coord_range\<close> raises ValueError, and a NaN coordinate can end up in both places
  of a pair (lemmas \<open>set_coord_range_empty\<close> and \<open>set_coord_range_nan\<close>).
\<close>

theorem set_coord_range_ordered:
  assumes ne: "corners \<noteq> []"
    and fin: "\<forall>c\<in>set corners. fst (pixelToSky c) \<noteq> NaN \<and> snd (pixelToSky c) \<noteq> NaN"
  shows "(\<exists>ra_lo ra_hi dec_lo dec_hi.
      set_coord_range pixelToSky corners self
        = Inr \<lparr>ra_range = Some (ra_lo, ra_hi), dec_range = Some (dec_lo, dec_hi)\<rparr>
    \<and> ra_lo \<in> (\<lambda>c. fst (pixelToSky c)) ` set corners
    \<and> ra_hi \<in> (\<lambda>c. fst (pixelToSky c)) ` set corners
    \<and> dec_lo \<in> (\<lambda>c. snd (pixelToSky c)) ` set corners
    \<and> dec_hi \<in> (\<lambda>c. snd (pixelToSky c)) ` set corners
    \<and> (\<forall>c\<in>set corners.
          fl_le ra_lo (fst (pixelToSky c)) \<and> fl_le (fst (pixelToSky c)) ra_hi
        \<and> fl_le dec_lo (snd (pixelToSky c)) \<and> fl_le (snd (pixelToSky c)) dec_hi)
    \<and> fl_le ra_lo ra_hi \<and> fl_le dec_lo dec_hi)
  \<and> (\<exists>e. RegionSelector_call transform minimal RegionSelector_init gc band max_mag = Inl e)"
proof -
  let ?ras = "map (\<lambda>corner. fst (pixelToSky corner)) corners"
  let ?decs = "map (\<lambda>corner. snd (pixelToSky corner)) corners"
  have ras: "?ras \<noteq> []" "NaN \<notin> set ?ras" and decs: "?decs \<noteq> []" "NaN \<notin> set ?decs"
    using ne fin by auto
  from py_min_finite [OF ras] obtain ra_lo where
    ra_lo: "py_min ?ras = Inr ra_lo" "\<forall>x\<in>set ?ras. fl_le ra_lo x" by blast
  from py_max_finite [OF ras] obtain ra_hi where
    ra_hi: "py_max ?ras = Inr ra_hi" "\<forall>x\<in>set ?ras. fl_le x ra_hi" by blast
  from py_min_finite [OF decs] obtain dec_lo where
    dec_lo: "py_min ?decs = Inr dec_lo" "\<forall>x\<in>set ?decs. fl_le dec_lo x" by blast
  from py_max_finite [OF decs] obtain dec_hi where
    dec_hi: "py_max ?decs = Inr dec_hi" "\<forall>x\<in>set ?decs. fl_le x dec_hi" by blast
  let ?s = "\<lparr>ra_range = Some (ra_lo, ra_hi), dec_range = Some (dec_lo, dec_hi)\<rparr>"
  have run: "set_coord_range pixelToSky corners self = Inr ?s"
    by (simp add: set_coord_range_def ra_lo(1) ra_hi(1) dec_lo(1) dec_hi(1))
  have attained:
    "ra_lo \<in> (\<lambda>c. fst (pixelToSky c)) ` set corners"
    "ra_hi \<in> (\<lambda>c. fst (pixelToSky c)) ` set corners"
    "dec_lo \<in> (\<lambda>c. snd (pixelToSky c)) ` set corners"
    "dec_hi \<in> (\<lambda>c. snd (pixelToSky c)) ` set corners"
    using py_min_in [OF ra_lo(1)] py_max_in [OF ra_hi(1)]
      py_min_in [OF dec_lo(1)] py_max_in [OF dec_hi(1)]
    by simp_all
  have within: "\<forall>c\<in>set corners.
          fl_le ra_lo (fst (pixelToSky c)) \<and> fl_le (fst (pixelToSky c)) ra_hi
        \<and> fl_le dec_lo (snd (pixelToSky c)) \<and> fl_le (snd (pixelToSky c)) dec_hi"
    using ra_lo(2) ra_hi(2) dec_lo(2) dec_hi(2) by simp
  from ne obtain c where c: "c \<in> set corners" by (cases corners) auto
  have ord: "fl_le ra_lo ra_hi" "fl_le dec_lo dec_hi"
    using within c by (blast intro: fl_le_trans)+
  have first: "\<exists>ra_lo ra_hi dec_lo dec_hi.
      set_coord_range pixelToSky corners self
        = Inr \<lparr>ra_range = Some (ra_lo, ra_hi), dec_range = Some (dec_lo, dec_hi)\<rparr>
    \<and> ra_lo \<in> (\<lambda>c. fst (pixelToSky c)) ` set corners
    \<and> ra_hi \<in> (\<lambda>c. fst (pixelToSky c)) ` set corners
    \<and> dec_lo \<in> (\<lambda>c. snd (pixelToSky c)) ` set corners
    \<and> dec_hi \<in> (\<lambda>c. snd (pixelToSky c)) ` set corners
    \<and> (\<forall>c\<in>set corners.
          fl_le ra_lo (fst (pixelToSky c)) \<and> fl_le (fst (pixelToSky c)) ra_hi
        \<and> fl_le dec_lo (snd (pixelToSky c)) \<and> fl_le (snd (pixelToSky c)) dec_hi)
    \<and> fl_le ra_lo ra_hi \<and> fl_le dec_lo dec_hi"
    using run attained within ord by blast
  have call: "RegionSelector_call transform minimal RegionSelector_init gc band max_mag
       = (case get_quantities gc (format_bandname band)
                 [Less_than (format_bandname band) max_mag] of
            Inl e \<Rightarrow> Inl e
          | Inr gc_cols \<Rightarrow> Inl AttributeError)"
    by (rule RegionSelector_call_never_set)
  have raises: "\<exists>e. RegionSelector_call transform minimal RegionSelector_init gc band max_mag = Inl e"
    unfolding call by (simp split: sum.splits)
  show ?thesis
    using first raises by blast
qed

theorem set_coord_range_ordered_witness:
  "corners_example \<noteq> []
   \<and> list_all (\<lambda>c. fst c \<noteq> NaN \<and> snd c \<noteq> NaN) corners_example
   \<and> set_coord_range (\<lambda>p. p) corners_example RegionSelector_init
       = Inr \<lparr>ra_range = Some (Fin 0, Fin 3), dec_range = Some (Fin 0, Fin 3)\<rparr>
   \<and> Fin 0 \<in> fst ` set corners_example \<and> Fin 3 \<in> fst ` set corners_example
   \<and> Fin 0 \<in> snd ` set corners_example \<and> Fin 3 \<in> snd ` set corners_example
   \<and> list_all (\<lambda>c. fl_le (Fin 0) (fst c) \<and> fl_le (fst c) (Fin 3)
                   \<and> fl_le (Fin 0) (snd c) \<and> fl_le (snd c) (Fin 3)) corners_example
   \<and> (\<exists>e. RegionSelector_call swap_example minimal_example RegionSelector_init
             galaxy_catalog_example ''r'' (Fin (49/2)) = Inl e)"
proof -
  have h1: "corners_example \<noteq> []"
    by (simp add: corners_example_def)
  have h2: "\<forall>c\<in>set corners_example. fst ((\<lambda>p. p) c) \<noteq> NaN \<and> snd ((\<lambda>p. p) c) \<noteq> NaN"
    by (simp add: corners_example_def)
  have h2': "list_all (\<lambda>c. fst c \<noteq> NaN \<and> snd c \<noteq> NaN) corners_example"
    using h2 by (simp add: list_all_iff)
  note inst = set_coord_range_ordered [OF h1 h2, where self = RegionSelector_init
      and transform = swap_example and minimal = minimal_example
      and gc = galaxy_catalog_example and band = "''r''" and max_mag = "Fin (49/2)"]
  from inst [THEN conjunct1] obtain ra_lo ra_hi dec_lo dec_hi where
    run: "set_coord_range (\<lambda>p. p) corners_example RegionSelector_init
          = Inr \<lparr>ra_range = Some (ra_lo, ra_hi), dec_range = Some (dec_lo, dec_hi)\<rparr>"
    and att: "ra_lo \<in> fst ` set corners_example" "ra_hi \<in> fst ` set corners_example"
      "dec_lo \<in> snd ` set corners_example" "dec_hi \<in> snd ` set corners_example"
    and within: "\<forall>c\<in>set corners_example.
          fl_le ra_lo (fst c) \<and> fl_le (fst c) ra_hi
        \<and> fl_le dec_lo (snd c) \<and> fl_le (snd c) dec_hi"
    by blast
  from run have "Fin 0 = ra_lo \<and> Fin 3 = ra_hi \<and> Fin 0 = dec_lo \<and> Fin 3 = dec_hi"
    by (auto simp: set_coord_range_example selector_example_def)
  then have v: "ra_lo = Fin 0" "ra_hi = Fin 3" "dec_lo = Fin 0" "dec_hi = Fin 3"
    by blast+
  have c: "\<exists>e. RegionSelector_call swap_example minimal_example RegionSelector_init
             galaxy_catalog_example ''r'' (Fin (49/2)) = Inl e"
    by (rule inst [THEN conjunct2])
  have w: "list_all (\<lambda>c. fl_le (Fin 0) (fst c) \<and> fl_le (fst c) (Fin 3)
                   \<and> fl_le (Fin 0) (snd c) \<and> fl_le (snd c) (Fin 3)) corners_example"
    using within unfolding v by (simp add: list_all_iff)
  show ?thesis
    using h1 h2' run [unfolded v] att [unfolded v] w c by simp
qed

text \<open>
  C4, as the claim states it, says that no class of the repository keeps state. The
  class \<open>RegionSelector\<close> does: on the four corners of the example
  \<open>_set_coord_range\<close> writes the ordered pairs (0, 3) and (0, 3) into the selector,
  and the result of \<open>__call__\<close> on the same catalog depends on whether they were written.
\<close>

theorem RegionSelector_owns_state:
  "set_coord_range (\<lambda>p. p) corners_example RegionSelector_init
     = Inr \<lparr>ra_range = Some (Fin 0, Fin 3), dec_range = Some (Fin 0, Fin 3)\<rparr>
   \<and> RegionSelector_call swap_example minimal_example RegionSelector_init
        galaxy_catalog_example ''r'' (Fin (49/2)) = Inl AttributeError
   \<and> RegionSelector_call swap_example minimal_example
        \<lparr>ra_range = Some (Fin 0, Fin 3), dec_range = Some (Fin 0, Fin 3)\<rparr>
        galaxy_catalog_example ''r'' (Fin (49/2)) \<noteq> Inl AttributeError"
proof -
  have b: "format_bandname ''r'' \<in> set (quantities galaxy_catalog_example)"
    by (simp add: galaxy_catalog_example_def format_bandname_def)
  have n: "Fin (49/2) \<noteq> NaN"
    by simp
  show ?thesis
    using set_coord_range_example RegionSelector_call_unset [OF b n]
      RegionSelector_call_eq [of "\<lparr>ra_range = Some (Fin 0, Fin 3), dec_range = Some (Fin 0, Fin 3)\<rparr>"
          "(Fin 0, Fin 3)" "(Fin 0, Fin 3)", OF _ _ b n]
    by (simp add: selector_example_def)
qed

subsection \<open>The assertion after the merge\<close>

lemma merge_left_rows:
  "set (merge_left left right) =
     {(l, None) | l. l \<in> set left \<and> (\<forall>r\<in>set right. galaxy_id r \<noteq> object_id l)}
   \<union> {(l, Some r) | l r. l \<in> set left \<and> r \<in> set right \<and> galaxy_id r = object_id l}"
  by (auto simp: merge_left_def Let_def filter_empty_conv split: if_splits)

lemma assert_array_equal_maps:
  "assert_array_equal (map f ms) (map g ms) =
     (if \<forall>m\<in>set ms. g m = Some (f m) then Inr () else Inl AssertionError)"
  by (simp add: assert_array_equal_def list_all2_map1 list_all2_map2 list_all2_same)

text \<open>
  C3, as the code has it. The notebooks are illustrative, but the truth/coadd matching
  notebook does assert one deterministic relation of the data it has computed: after the
  left merge, \<open>object_id\<close> must equal \<open>galaxy_id\<close> in every row. The two cells return
  the merged table exactly when every row of \<open>matched_gals\<close> has a partner in
  \<open>extragalactic_data\<close>, and raise AssertionError otherwise.
\<close>

theorem merge_and_assert_enforces:
  "merge_and_assert matched_gals extragalactic_data =
     (if \<forall>l\<in>set matched_gals. \<exists>r\<in>set extragalactic_data. galaxy_id r = object_id l
      then Inr (merge_left matched_gals extragalactic_data)
      else Inl AssertionError)"
proof -
  let ?mg = "merge_left matched_gals extragalactic_data"
  have "(\<forall>m\<in>set ?mg. map_option galaxy_id (snd m) = Some (object_id (fst m)))
      \<longleftrightarrow> (\<forall>l\<in>set matched_gals. \<exists>r\<in>set extragalactic_data. galaxy_id r = object_id l)"
  proof
    assume a: "\<forall>m\<in>set ?mg. map_option galaxy_id (snd m) = Some (object_id (fst m))"
    show "\<forall>l\<in>set matched_gals. \<exists>r\<in>set extragalactic_data. galaxy_id r = object_id l"
    proof (rule ballI, rule ccontr)
      fix l assume l: "l \<in> set matched_gals"
        and n: "\<not> (\<exists>r\<in>set extragalactic_data. galaxy_id r = object_id l)"
      then have "(l, None) \<in> set ?mg"
        unfolding merge_left_rows by blast
      with a show False by fastforce
    qed
  next
    assume "\<forall>l\<in>set matched_gals. \<exists>r\<in>set extragalactic_data. galaxy_id r = object_id l"
    then show "\<forall>m\<in>set ?mg. map_option galaxy_id (snd m) = Some (object_id (fst m))"
      unfolding merge_left_rows by auto
  qed
  then show ?thesis
    by (simp add: merge_and_assert_def Let_def assert_array_equal_maps)
qed

theorem merge_and_assert_enforces_witness:
  "(\<exists>r\<in>set [extragalactic_example]. galaxy_id r = object_id matched_example)
   \<and> merge_and_assert [matched_example] [extragalactic_example]
       = Inr [(matched_example, Some extragalactic_example)]
   \<and> \<not> (\<forall>l\<in>set [matched_example, matched_example\<lparr>object_id := 8\<rparr>].
           \<exists>r\<in>set [extragalactic_example]. galaxy_id r = object_id l)
   \<and> merge_and_assert [matched_example, matched_example\<lparr>object_id := 8\<rparr>]
         [extragalactic_example] = Inl AssertionError"
  using merge_and_assert_enforces [of "[matched_example]" "[extragalactic_example]"]
    merge_and_assert_enforces [of "[matched_example, matched_example\<lparr>object_id := 8\<rparr>]"
      "[extragalactic_example]"]
  by (simp add: merge_left_def matched_example_def extragalactic_example_def)

text \<open>
  C3, as the claim states it, says that no operation of a notebook asserts a relation of
  its computed data. The assertion cell does: on a matched galaxy that the extragalactic
  data do not contain it raises AssertionError.
\<close>

theorem assert_raises_example:
  "merge_and_assert [matched_example] [] = Inl AssertionError"
  by (simp add: merge_and_assert_def merge_left_def assert_array_equal_def Let_def)

subsection \<open>Reading the coadd catalog\<close>



lemma format_2d_one_digit: "n < 10 \<Longrightarrow> format_2d n = [CHR '' '', digit_char n]"
  by (simp add: format_2d_def format_d.simps [of n])





subsection \<open>Coordinate computations\<close>








end
